theory Spec2Isabelle
  imports Complex_Main
begin

section \<open>Data model (shared/schema.ts)\<close>

text \<open>
  The tables of \<^verbatim>\<open>shared/schema.ts\<close> as records, the PostgreSQL enums as datatypes.
  A nullable column is an \<open>option\<close>. Columns that no route handler branches on and that
  are only copied from the request into the row (condition score, purchase values,
  warranty, address, metadata, tags, priority, costs, ...) are left out; \<open>description\<close>
  and \<open>serialNumber\<close> stand for them. \<open>createdAt\<close> and \<open>updatedAt\<close> are never null: the
  insert schemas omit them, so every row gets the column default \<^verbatim>\<open>now()\<close>. Of the
  timestamp columns that a request can name, \<^verbatim>\<open>completedDate\<close> of a workflow is kept.
\<close>

type_synonym timestamp = nat

datatype asset_status = Active | Inactive | Maintenance | Disposed

datatype asset_category = Equipment | Vehicle | It_equipment | Furniture | Building | Infrastructure

datatype workflow_status = Pending | Approved | Rejected | Completed

datatype workflow_type = Purchase | Transfer | Disposal | Maintenance_work

record geopoint =
  longitude :: real
  latitude :: real

record asset =
  a_id :: string
  a_name :: string
  a_description :: "string option"
  a_category :: asset_category
  a_serialNumber :: "string option"
  a_status :: "asset_status option"
  a_custodianId :: "string option"
  a_location :: "geopoint option"
  a_createdBy :: "string option"
  a_createdAt :: timestamp
  a_updatedAt :: timestamp

record workflow =
  w_id :: string
  w_type :: workflow_type
  w_title :: string
  w_description :: "string option"
  w_status :: "workflow_status option"
  w_requestedBy :: "string option"
  w_assetId :: "string option"
  w_completedDate :: "timestamp option"
  w_comments :: "string option"
  w_createdAt :: timestamp
  w_updatedAt :: timestamp

text \<open>
  The JSON snapshots stored in \<^verbatim>\<open>audit_logs.old_values\<close> and \<^verbatim>\<open>new_values\<close>: an entity, or
  the object \<^verbatim>\<open>{ location: ... }\<close> of the location route (a null location, or a point).
\<close>

datatype snapshot =
    AssetSnap asset
  | WorkflowSnap workflow
  | LocationSnap "geopoint option"

text \<open>The object handed to \<^verbatim>\<open>storage.createAuditLog\<close>, and the row it becomes.\<close>

record audit_values =
  entityType :: string
  entityId :: string
  action :: string
  userId :: string
  changeSummary :: "string \<times> string \<times> string"
  oldValues :: "snapshot option"
  newValues :: "snapshot option"
  ipAddress :: "string option"
  userAgent :: "string option"

record auditLog =
  al_id :: nat
  al_entityType :: string
  al_entityId :: string
  al_action :: string
  al_userId :: string
  al_changeSummary :: "string \<times> string \<times> string"
  al_oldValues :: "snapshot option"
  al_newValues :: "snapshot option"
  al_ipAddress :: "string option"
  al_userAgent :: "string option"
  al_timestamp :: timestamp

subsection \<open>Request bodies and the insert schemas\<close>

text \<open>
  A key of a JSON body is absent, \<^verbatim>\<open>null\<close>, or holds a value. The bodies carry the enum
  columns as the strings the client sent, and the timestamp column \<^verbatim>\<open>completedDate\<close> as the
  JSON value the client sent (a string such as an ISO date): JSON has no dates. The
  other keys are taken as already of their column's type.
\<close>

datatype 'a field = Absent | Null | Val 'a

record asset_body =
  ab_name :: "string field"
  ab_description :: "string field"
  ab_category :: "string field"
  ab_serialNumber :: "string field"
  ab_status :: "string field"
  ab_custodianId :: "string field"
  ab_location :: "geopoint field"
  ab_createdBy :: "string field"

text \<open>\<^verbatim>\<open>InsertAsset\<close> and \<^verbatim>\<open>Partial<InsertAsset>\<close>: the body after \<^verbatim>\<open>parse\<close>.\<close>

record asset_values =
  av_name :: "string field"
  av_description :: "string field"
  av_category :: "asset_category field"
  av_serialNumber :: "string field"
  av_status :: "asset_status field"
  av_custodianId :: "string field"
  av_location :: "geopoint field"
  av_createdBy :: "string field"

record workflow_body =
  wb_type :: "string field"
  wb_title :: "string field"
  wb_description :: "string field"
  wb_status :: "string field"
  wb_requestedBy :: "string field"
  wb_assetId :: "string field"
  wb_completedDate :: "string field"
  wb_comments :: "string field"

record workflow_values =
  wv_type :: "workflow_type field"
  wv_title :: "string field"
  wv_description :: "string field"
  wv_status :: "workflow_status field"
  wv_requestedBy :: "string field"
  wv_assetId :: "string field"
  wv_completedDate :: "timestamp field"
  wv_comments :: "string field"

datatype error = ZodError | TypeError | StoreError

definition asset_status_enum :: "string \<Rightarrow> asset_status option" where
  "asset_status_enum s =
     (if s = ''active'' then Some Active
      else if s = ''inactive'' then Some Inactive
      else if s = ''maintenance'' then Some Maintenance
      else if s = ''disposed'' then Some Disposed
      else None)"

definition asset_category_enum :: "string \<Rightarrow> asset_category option" where
  "asset_category_enum s =
     (if s = ''equipment'' then Some Equipment
      else if s = ''vehicle'' then Some Vehicle
      else if s = ''it_equipment'' then Some It_equipment
      else if s = ''furniture'' then Some Furniture
      else if s = ''building'' then Some Building
      else if s = ''infrastructure'' then Some Infrastructure
      else None)"

definition workflow_status_enum :: "string \<Rightarrow> workflow_status option" where
  "workflow_status_enum s =
     (if s = ''pending'' then Some Pending
      else if s = ''approved'' then Some Approved
      else if s = ''rejected'' then Some Rejected
      else if s = ''completed'' then Some Completed
      else None)"

definition workflow_type_enum :: "string \<Rightarrow> workflow_type option" where
  "workflow_type_enum s =
     (if s = ''purchase'' then Some Purchase
      else if s = ''transfer'' then Some Transfer
      else if s = ''disposal'' then Some Disposal
      else if s = ''maintenance'' then Some Maintenance_work
      else None)"

text \<open>
  The zod schema of one key. A \<^verbatim>\<open>notNull\<close> column without default is required; in the
  \<^verbatim>\<open>partial()\<close> schema it may be absent, but never null. A nullable column may be absent
  or null. An enum column accepts only the strings of its enum. A timestamp column is
  \<^verbatim>\<open>z.date()\<close>, which accepts a \<^verbatim>\<open>Date\<close> object only: whatever value a JSON body holds under
  the key is refused, and only an absent or null key passes.
\<close>

fun required :: "'a field \<Rightarrow> error + 'a field" where
  "required (Val v) = Inr (Val v)"
| "required _ = Inl ZodError"

fun optional :: "'a field \<Rightarrow> error + 'a field" where
  "optional Null = Inl ZodError"
| "optional f = Inr f"

fun z_date :: "string field \<Rightarrow> error + timestamp field" where
  "z_date Absent = Inr Absent"
| "z_date Null = Inr Null"
| "z_date (Val s) = Inl ZodError"

fun enum_key :: "(string \<Rightarrow> 'e option) \<Rightarrow> string field \<Rightarrow> error + 'e field" where
  "enum_key en Absent = Inr Absent"
| "enum_key en Null = Inr Null"
| "enum_key en (Val s) = (case en s of None \<Rightarrow> Inl ZodError | Some e \<Rightarrow> Inr (Val e))"

definition insertAssetSchema_parse :: "asset_body \<Rightarrow> error + asset_values" where
  "insertAssetSchema_parse b =
     (case required (ab_name b) of Inl e \<Rightarrow> Inl e | Inr nm \<Rightarrow>
     (case enum_key asset_category_enum (ab_category b) of Inl e \<Rightarrow> Inl e | Inr cat \<Rightarrow>
     (case required cat of Inl e \<Rightarrow> Inl e | Inr cat' \<Rightarrow>
     (case enum_key asset_status_enum (ab_status b) of Inl e \<Rightarrow> Inl e | Inr st \<Rightarrow>
        Inr \<lparr> av_name = nm, av_description = ab_description b, av_category = cat',
              av_serialNumber = ab_serialNumber b, av_status = st,
              av_custodianId = ab_custodianId b, av_location = ab_location b,
              av_createdBy = ab_createdBy b \<rparr>))))"

definition insertAssetSchema_partial_parse :: "asset_body \<Rightarrow> error + asset_values" where
  "insertAssetSchema_partial_parse b =
     (case optional (ab_name b) of Inl e \<Rightarrow> Inl e | Inr nm \<Rightarrow>
     (case enum_key asset_category_enum (ab_category b) of Inl e \<Rightarrow> Inl e | Inr cat \<Rightarrow>
     (case optional cat of Inl e \<Rightarrow> Inl e | Inr cat' \<Rightarrow>
     (case enum_key asset_status_enum (ab_status b) of Inl e \<Rightarrow> Inl e | Inr st \<Rightarrow>
        Inr \<lparr> av_name = nm, av_description = ab_description b, av_category = cat',
              av_serialNumber = ab_serialNumber b, av_status = st,
              av_custodianId = ab_custodianId b, av_location = ab_location b,
              av_createdBy = ab_createdBy b \<rparr>))))"

definition insertWorkflowSchema_parse :: "workflow_body \<Rightarrow> error + workflow_values" where
  "insertWorkflowSchema_parse b =
     (case enum_key workflow_type_enum (wb_type b) of Inl e \<Rightarrow> Inl e | Inr ty \<Rightarrow>
     (case required ty of Inl e \<Rightarrow> Inl e | Inr ty' \<Rightarrow>
     (case required (wb_title b) of Inl e \<Rightarrow> Inl e | Inr ti \<Rightarrow>
     (case enum_key workflow_status_enum (wb_status b) of Inl e \<Rightarrow> Inl e | Inr st \<Rightarrow>
     (case z_date (wb_completedDate b) of Inl e \<Rightarrow> Inl e | Inr cd \<Rightarrow>
        Inr \<lparr> wv_type = ty', wv_title = ti, wv_description = wb_description b,
              wv_status = st, wv_requestedBy = wb_requestedBy b,
              wv_assetId = wb_assetId b, wv_completedDate = cd,
              wv_comments = wb_comments b \<rparr>)))))"

definition insertWorkflowSchema_partial_parse :: "workflow_body \<Rightarrow> error + workflow_values" where
  "insertWorkflowSchema_partial_parse b =
     (case enum_key workflow_type_enum (wb_type b) of Inl e \<Rightarrow> Inl e | Inr ty \<Rightarrow>
     (case optional ty of Inl e \<Rightarrow> Inl e | Inr ty' \<Rightarrow>
     (case optional (wb_title b) of Inl e \<Rightarrow> Inl e | Inr ti \<Rightarrow>
     (case enum_key workflow_status_enum (wb_status b) of Inl e \<Rightarrow> Inl e | Inr st \<Rightarrow>
     (case z_date (wb_completedDate b) of Inl e \<Rightarrow> Inl e | Inr cd \<Rightarrow>
        Inr \<lparr> wv_type = ty', wv_title = ti, wv_description = wb_description b,
              wv_status = st, wv_requestedBy = wb_requestedBy b,
              wv_assetId = wb_assetId b, wv_completedDate = cd,
              wv_comments = wb_comments b \<rparr>)))))"

section \<open>Identifier allocation (column defaults and sequences of shared/schema.ts)\<close>

text \<open>
  The primary keys are the column default
  \<^verbatim>\<open>concat('AST-', to_char(nextval('asset_seq'), 'FM0000'))\<close> over a sequence created with
  \<^verbatim>\<open>START 1000\<close>. \<^verbatim>\<open>to_char\<close> is PostgreSQL's: the template \<^verbatim>\<open>0000\<close> has four digit positions,
  filled with leading zeros; \<^verbatim>\<open>FM\<close> drops the padding blank of the sign; a number with more
  integer digits than the template has positions is printed as one \<^verbatim>\<open>#\<close> per position.
\<close>

definition digit_char :: "nat \<Rightarrow> char" where
  "digit_char d = ''0123456789'' ! (d mod 10)"

definition to_char_FM0000 :: "nat \<Rightarrow> string" where
  "to_char_FM0000 n =
     (if n < 10000
      then [digit_char (n div 1000), digit_char (n div 100), digit_char (n div 10), digit_char n]
      else ''####'')"

definition asset_id_default :: "nat \<Rightarrow> string" where
  "asset_id_default seq = ''AST-'' @ to_char_FM0000 seq"

definition workflow_id_default :: "nat \<Rightarrow> string" where
  "workflow_id_default seq = ''WFL-'' @ to_char_FM0000 seq"

section \<open>The store (server/storage.ts)\<close>

text \<open>
  The tables are lists of rows in insertion order. Every method of \<^verbatim>\<open>DatabaseStorage\<close> returns
  a promise that may reject (the store is down, a statement times out, a constraint is
  violated); \<open>rejecting\<close> is the set of methods that reject for a reason outside the
  tables, and a rejected call leaves the tables as they are. A constraint of the schema
  that a handler can violate (primary key, \<^verbatim>\<open>NOT NULL\<close>, the foreign keys from
  \<^verbatim>\<open>workflows.asset_id\<close> and \<^verbatim>\<open>work_orders.asset_id\<close> to \<^verbatim>\<open>assets.id\<close>, a negative \<^verbatim>\<open>OFFSET\<close>, a
  limit or offset beyond \<^verbatim>\<open>bigint\<close>) is a branch of the method itself. The table \<^verbatim>\<open>users\<close> is
  outside the model, and so are the foreign keys to it. Of \<^verbatim>\<open>work_orders\<close> only the
  reference to an asset is kept: no modelled route writes the table.
\<close>

record workOrder =
  wo_id :: string
  wo_assetId :: "string option"

datatype storage_op =
    GetAssets | GetAsset | CreateAsset | UpdateAsset | DeleteAsset
  | GetWorkflow | CreateWorkflow | UpdateWorkflow
  | CreateAuditLog | GetAuditLogs
  | GetAssetsNearLocation | UpdateAssetLocation

record db =
  assets :: "asset list"
  workflows :: "workflow list"
  workOrders :: "workOrder list"
  auditLogs :: "auditLog list"
  asset_seq :: nat
  workflow_seq :: nat
  audit_logs_id_seq :: nat
  rejecting :: "storage_op set"

text \<open>
  The value a nullable column takes from one key of the written object: the key absent
  leaves \<open>d\<close> (the column default on insert, the old value on update), \<^verbatim>\<open>null\<close> stores
  NULL.
\<close>

fun column_value :: "'a option \<Rightarrow> 'a field \<Rightarrow> 'a option" where
  "column_value d Absent = d"
| "column_value d Null = None"
| "column_value d (Val v) = Some v"

fun notnull_value :: "'a \<Rightarrow> 'a field \<Rightarrow> 'a" where
  "notnull_value d (Val v) = v"
| "notnull_value d _ = d"

text \<open>
  The foreign key of \<^verbatim>\<open>asset_id\<close>: a written value must be the identifier of an asset; an
  asset that a workflow or a work order references cannot be deleted.
\<close>

fun asset_id_exists :: "db \<Rightarrow> string field \<Rightarrow> bool" where
  "asset_id_exists d (Val x) = (x \<in> set (map a_id (assets d)))"
| "asset_id_exists d _ = True"

definition asset_referenced :: "db \<Rightarrow> string \<Rightarrow> bool" where
  "asset_referenced d ident =
     (Some ident \<in> set (map w_assetId (workflows d))
      \<or> Some ident \<in> set (map wo_assetId (workOrders d)))"

definition storage_getAsset :: "string \<Rightarrow> db \<Rightarrow> (error + asset option) \<times> db" where
  "storage_getAsset ident d =
     (if GetAsset \<in> rejecting d then (Inl StoreError, d)
      else (Inr (find (\<lambda>a. a_id a = ident) (assets d)), d))"

definition storage_createAsset :: "timestamp \<Rightarrow> asset_values \<Rightarrow> db \<Rightarrow> (error + asset) \<times> db" where
  "storage_createAsset now v d =
     (if CreateAsset \<in> rejecting d then (Inl StoreError, d)
      else
        let newId = asset_id_default (asset_seq d);
            d1 = d\<lparr>asset_seq := Suc (asset_seq d)\<rparr>
        in (case (av_name v, av_category v) of
              (Val nm, Val cat) \<Rightarrow>
                if newId \<in> set (map a_id (assets d)) then (Inl StoreError, d1)
                else
                  let newAsset =
                        \<lparr> a_id = newId, a_name = nm,
                          a_description = column_value None (av_description v),
                          a_category = cat,
                          a_serialNumber = column_value None (av_serialNumber v),
                          a_status = column_value (Some Active) (av_status v),
                          a_custodianId = column_value None (av_custodianId v),
                          a_location = column_value None (av_location v),
                          a_createdBy = column_value None (av_createdBy v),
                          a_createdAt = now, a_updatedAt = now \<rparr>
                  in (Inr newAsset, d1\<lparr>assets := assets d @ [newAsset]\<rparr>)
            | _ \<Rightarrow> (Inl StoreError, d1)))"

definition asset_set :: "timestamp \<Rightarrow> asset_values \<Rightarrow> asset \<Rightarrow> asset" where
  "asset_set now v a =
     a\<lparr> a_name := notnull_value (a_name a) (av_name v),
        a_description := column_value (a_description a) (av_description v),
        a_category := notnull_value (a_category a) (av_category v),
        a_serialNumber := column_value (a_serialNumber a) (av_serialNumber v),
        a_status := column_value (a_status a) (av_status v),
        a_custodianId := column_value (a_custodianId a) (av_custodianId v),
        a_location := column_value (a_location a) (av_location v),
        a_createdBy := column_value (a_createdBy a) (av_createdBy v),
        a_updatedAt := now \<rparr>"

definition storage_updateAsset ::
  "timestamp \<Rightarrow> string \<Rightarrow> asset_values \<Rightarrow> db \<Rightarrow> (error + asset option) \<times> db" where
  "storage_updateAsset now ident v d =
     (if UpdateAsset \<in> rejecting d then (Inl StoreError, d)
      else if (av_name v = Null \<or> av_category v = Null) \<and> ident \<in> set (map a_id (assets d))
      then (Inl StoreError, d)
      else
        let rows = map (\<lambda>a. if a_id a = ident then asset_set now v a else a) (assets d)
        in (Inr (find (\<lambda>a. a_id a = ident) rows), d\<lparr>assets := rows\<rparr>))"

definition storage_deleteAsset :: "string \<Rightarrow> db \<Rightarrow> (error + unit) \<times> db" where
  "storage_deleteAsset ident d =
     (if DeleteAsset \<in> rejecting d then (Inl StoreError, d)
      else if ident \<in> set (map a_id (assets d)) \<and> asset_referenced d ident
      then (Inl StoreError, d)
      else (Inr (), d\<lparr>assets := filter (\<lambda>a. a_id a \<noteq> ident) (assets d)\<rparr>))"

definition storage_getWorkflow :: "string \<Rightarrow> db \<Rightarrow> (error + workflow option) \<times> db" where
  "storage_getWorkflow ident d =
     (if GetWorkflow \<in> rejecting d then (Inl StoreError, d)
      else (Inr (find (\<lambda>w. w_id w = ident) (workflows d)), d))"

definition storage_createWorkflow ::
  "timestamp \<Rightarrow> workflow_values \<Rightarrow> db \<Rightarrow> (error + workflow) \<times> db" where
  "storage_createWorkflow now v d =
     (if CreateWorkflow \<in> rejecting d then (Inl StoreError, d)
      else
        let newId = workflow_id_default (workflow_seq d);
            d1 = d\<lparr>workflow_seq := Suc (workflow_seq d)\<rparr>
        in (case (wv_type v, wv_title v) of
              (Val ty, Val ti) \<Rightarrow>
                if newId \<in> set (map w_id (workflows d)) \<or> \<not> asset_id_exists d (wv_assetId v)
                then (Inl StoreError, d1)
                else
                  let newWorkflow =
                        \<lparr> w_id = newId, w_type = ty, w_title = ti,
                          w_description = column_value None (wv_description v),
                          w_status = column_value (Some Pending) (wv_status v),
                          w_requestedBy = column_value None (wv_requestedBy v),
                          w_assetId = column_value None (wv_assetId v),
                          w_completedDate = column_value None (wv_completedDate v),
                          w_comments = column_value None (wv_comments v),
                          w_createdAt = now, w_updatedAt = now \<rparr>
                  in (Inr newWorkflow, d1\<lparr>workflows := workflows d @ [newWorkflow]\<rparr>)
            | _ \<Rightarrow> (Inl StoreError, d1)))"

definition workflow_set :: "timestamp \<Rightarrow> workflow_values \<Rightarrow> workflow \<Rightarrow> workflow" where
  "workflow_set now v w =
     w\<lparr> w_type := notnull_value (w_type w) (wv_type v),
        w_title := notnull_value (w_title w) (wv_title v),
        w_description := column_value (w_description w) (wv_description v),
        w_status := column_value (w_status w) (wv_status v),
        w_requestedBy := column_value (w_requestedBy w) (wv_requestedBy v),
        w_assetId := column_value (w_assetId w) (wv_assetId v),
        w_completedDate := column_value (w_completedDate w) (wv_completedDate v),
        w_comments := column_value (w_comments w) (wv_comments v),
        w_updatedAt := now \<rparr>"

definition storage_updateWorkflow ::
  "timestamp \<Rightarrow> string \<Rightarrow> workflow_values \<Rightarrow> db \<Rightarrow> (error + workflow option) \<times> db" where
  "storage_updateWorkflow now ident v d =
     (if UpdateWorkflow \<in> rejecting d then (Inl StoreError, d)
      else if (wv_type v = Null \<or> wv_title v = Null \<or> \<not> asset_id_exists d (wv_assetId v))
              \<and> ident \<in> set (map w_id (workflows d))
      then (Inl StoreError, d)
      else
        let rows = map (\<lambda>w. if w_id w = ident then workflow_set now v w else w) (workflows d)
        in (Inr (find (\<lambda>w. w_id w = ident) rows), d\<lparr>workflows := rows\<rparr>))"

definition storage_createAuditLog :: "timestamp \<Rightarrow> audit_values \<Rightarrow> db \<Rightarrow> (error + unit) \<times> db" where
  "storage_createAuditLog now v d =
     (if CreateAuditLog \<in> rejecting d then (Inl StoreError, d)
      else
        let row = \<lparr> al_id = audit_logs_id_seq d,
                    al_entityType = entityType v, al_entityId = entityId v,
                    al_action = action v, al_userId = userId v,
                    al_changeSummary = changeSummary v,
                    al_oldValues = oldValues v, al_newValues = newValues v,
                    al_ipAddress = ipAddress v, al_userAgent = userAgent v,
                    al_timestamp = now \<rparr>
        in (Inr (), d\<lparr>auditLogs := auditLogs d @ [row],
                      audit_logs_id_seq := Suc (audit_logs_id_seq d)\<rparr>))"

text \<open>
  \<^verbatim>\<open>.limit(n).offset(m)\<close>: the query builder writes \<^verbatim>\<open>LIMIT\<close> only for a limit that is not
  negative, so a negative limit selects every row; the store refuses a negative offset
  and a limit or offset that is no \<^verbatim>\<open>bigint\<close>.
\<close>

definition bigint_range :: "int \<Rightarrow> int \<Rightarrow> bool" where
  "bigint_range limit offset = (limit < 2 ^ 63 \<and> 0 \<le> offset \<and> offset < 2 ^ 63)"

definition page :: "int \<Rightarrow> int \<Rightarrow> 'a list \<Rightarrow> 'a list" where
  "page limit offset rows =
     (if limit < 0 then drop (nat offset) rows else take (nat limit) (drop (nat offset) rows))"

definition storage_getAssets ::
  "(string \<Rightarrow> string \<Rightarrow> bool) \<Rightarrow> int \<Rightarrow> int \<Rightarrow> string option \<Rightarrow> db
     \<Rightarrow> (error + asset list \<times> nat) \<times> db" where
  \<comment> \<open>\<open>like text pattern\<close> is the SQL operator \<^verbatim>\<open>LIKE\<close> of the store; on a NULL column it
      selects nothing. An empty search string is falsy: no condition.\<close>
  "storage_getAssets like limit offset search d =
     (if GetAssets \<in> rejecting d then (Inl StoreError, d)
      else
        let conditions =
              (case search of
                 None \<Rightarrow> (\<lambda>a. True)
               | Some s \<Rightarrow>
                   if s = [] then (\<lambda>a. True)
                   else (\<lambda>a. like (a_name a) (''%'' @ s @ ''%'')
                            \<or> (case a_description a of None \<Rightarrow> False
                                | Some t \<Rightarrow> like t (''%'' @ s @ ''%''))
                            \<or> (case a_serialNumber a of None \<Rightarrow> False
                                | Some t \<Rightarrow> like t (''%'' @ s @ ''%''))));
            matching = filter conditions (assets d)
        in if \<not> bigint_range limit offset then (Inl StoreError, d)
           else (Inr (page limit offset (rev (sort_key a_createdAt matching)),
                      length matching), d))"

definition storage_getAuditLogs :: "int \<Rightarrow> int \<Rightarrow> db \<Rightarrow> (error + auditLog list \<times> nat) \<times> db" where
  "storage_getAuditLogs limit offset d =
     (if GetAuditLogs \<in> rejecting d then (Inl StoreError, d)
      else if \<not> bigint_range limit offset then (Inl StoreError, d)
      else (Inr (page limit offset (rev (sort_key al_timestamp (auditLogs d))),
                 length (auditLogs d)), d))"

subsection \<open>Spatial operations\<close>

text \<open>
  \<^verbatim>\<open>ST_DWithin\<close> and \<^verbatim>\<open>ST_Distance\<close> on \<^verbatim>\<open>geography\<close> values are functions of the store,
  computed by it in floating point and not part of the source: the model takes both as
  parameters, \<open>st_dwithin a b r\<close> for the test that selects a row and \<open>st_distance a b\<close> for
  the distance that is reported and ordered by, and assumes nothing about how the two
  relate.
\<close>

definition pointToGeometry :: "real \<Rightarrow> real \<Rightarrow> geopoint" where
  "pointToGeometry lng lat = \<lparr> longitude = lng, latitude = lat \<rparr>"

definition withinDistance ::
  "(geopoint \<Rightarrow> geopoint \<Rightarrow> real \<Rightarrow> bool) \<Rightarrow> geopoint \<Rightarrow> real \<Rightarrow> real \<Rightarrow> real \<Rightarrow> bool" where
  "withinDistance st_dwithin column lng lat radiusMeters =
     st_dwithin column (pointToGeometry lng lat) radiusMeters"

text \<open>
  The rows of \<^verbatim>\<open>getAssetsNearLocation\<close> are the asset's columns and the selected
  \<^verbatim>\<open>distance\<close>, ordered by it; the order of rows at equal distance is the store's choice,
  here the one of a stable sort.
\<close>

definition near_row ::
  "(geopoint \<Rightarrow> geopoint \<Rightarrow> real \<Rightarrow> bool) \<Rightarrow> (geopoint \<Rightarrow> geopoint \<Rightarrow> real)
     \<Rightarrow> real \<Rightarrow> real \<Rightarrow> real \<Rightarrow> asset \<Rightarrow> (asset \<times> real) option" where
  "near_row st_dwithin st_distance lng lat radiusMeters a =
     (case a_location a of
        None \<Rightarrow> None
      | Some p \<Rightarrow>
          if withinDistance st_dwithin p lng lat radiusMeters
          then Some (a, st_distance p (pointToGeometry lng lat))
          else None)"

definition storage_getAssetsNearLocation ::
  "(geopoint \<Rightarrow> geopoint \<Rightarrow> real \<Rightarrow> bool) \<Rightarrow> (geopoint \<Rightarrow> geopoint \<Rightarrow> real)
     \<Rightarrow> real \<Rightarrow> real \<Rightarrow> real \<Rightarrow> db \<Rightarrow> (error + (asset \<times> real) list) \<times> db" where
  "storage_getAssetsNearLocation st_dwithin st_distance lng lat radiusMeters d =
     (if GetAssetsNearLocation \<in> rejecting d then (Inl StoreError, d)
      else (Inr (sort_key snd
                   (List.map_filter (near_row st_dwithin st_distance lng lat radiusMeters)
                      (assets d))), d))"

definition storage_updateAssetLocation ::
  "timestamp \<Rightarrow> string \<Rightarrow> real \<Rightarrow> real \<Rightarrow> db \<Rightarrow> (error + asset option) \<times> db" where
  "storage_updateAssetLocation now ident lng lat d =
     (if UpdateAssetLocation \<in> rejecting d then (Inl StoreError, d)
      else
        let rows = map (\<lambda>a. if a_id a = ident
                             then a\<lparr> a_location := Some (pointToGeometry lng lat),
                                     a_updatedAt := now \<rparr>
                             else a) (assets d)
        in (Inr (find (\<lambda>a. a_id a = ident) rows), d\<lparr>assets := rows\<rparr>))"

section \<open>The routes (server/routes.ts)\<close>

text \<open>
  A handler maps the request and the store to the response and the store after it. The
  request context holds \<^verbatim>\<open>req.user?.claims?.sub\<close> (\<open>None\<close> when \<^verbatim>\<open>req.user\<close> is undefined, where
  \<^verbatim>\<open>req.user!.claims.sub\<close> throws),
  \<^verbatim>\<open>req.ip\<close>, the \<^verbatim>\<open>User-Agent\<close> header and the clock. The handlers are the bodies behind the
  \<^verbatim>\<open>isAuthenticated\<close> middleware.
\<close>

record ctx =
  req_user :: "string option"
  req_ip :: "string option"
  req_userAgent :: "string option"
  req_now :: timestamp

datatype body =
    Message string
  | InvalidData
  | Empty
  | AssetJson "asset option"
  | WorkflowJson "workflow option"
  | AssetsPage "asset list" nat
  | AuditLogsPage "auditLog list" nat
  | NearbyAssets "(asset \<times> real) list"

datatype response = Response (res_status: nat) (res_body: body)

text \<open>The helper \<^verbatim>\<open>createAuditLog\<close> of \<^verbatim>\<open>registerRoutes\<close>: it writes only for a truthy \<^verbatim>\<open>sub\<close>.\<close>

definition createAuditLog ::
  "string \<Rightarrow> string \<Rightarrow> string \<Rightarrow> ctx \<Rightarrow> snapshot option \<Rightarrow> snapshot option \<Rightarrow> db
     \<Rightarrow> (error + unit) \<times> db" where
  "createAuditLog etype eid act req old new d =
     (case req_user req of
        None \<Rightarrow> (Inr (), d)
      | Some sub \<Rightarrow>
          if sub = [] then (Inr (), d)
          else storage_createAuditLog (req_now req)
                 \<lparr> entityType = etype, entityId = eid, action = act, userId = sub,
                   changeSummary = (act, etype, eid),
                   oldValues = old, newValues = new,
                   ipAddress = req_ip req, userAgent = req_userAgent req \<rparr> d)"

text \<open>The \<^verbatim>\<open>catch\<close> block of the routes that validate a body.\<close>

fun catch_with_zod :: "string \<Rightarrow> error \<Rightarrow> response" where
  "catch_with_zod msg ZodError = Response 400 InvalidData"
| "catch_with_zod msg _ = Response 500 (Message msg)"

text \<open>\<^verbatim>\<open>POST /api/assets\<close>, \<^verbatim>\<open>PUT /api/assets/:id\<close> and \<^verbatim>\<open>DELETE /api/assets/:id\<close>.\<close>

definition post_assets :: "ctx \<Rightarrow> asset_body \<Rightarrow> db \<Rightarrow> response \<times> db" where
  "post_assets req b d =
     (case req_user req of
        None \<Rightarrow> (catch_with_zod ''Failed to create asset'' TypeError, d)
      | Some sub \<Rightarrow>
         (case insertAssetSchema_parse (b\<lparr>ab_createdBy := Val sub\<rparr>) of
            Inl e \<Rightarrow> (catch_with_zod ''Failed to create asset'' e, d)
          | Inr validatedData \<Rightarrow>
             (case storage_createAsset (req_now req) validatedData d of
                (Inl e, d1) \<Rightarrow> (catch_with_zod ''Failed to create asset'' e, d1)
              | (Inr asset, d1) \<Rightarrow>
                 (case createAuditLog ''asset'' (a_id asset) ''create'' req
                         None (Some (AssetSnap asset)) d1 of
                    (Inl e, d2) \<Rightarrow> (catch_with_zod ''Failed to create asset'' e, d2)
                  | (Inr u, d2) \<Rightarrow> (Response 201 (AssetJson (Some asset)), d2)))))"

definition put_asset :: "ctx \<Rightarrow> string \<Rightarrow> asset_body \<Rightarrow> db \<Rightarrow> response \<times> db" where
  "put_asset req ident b d =
     (case storage_getAsset ident d of
        (Inl e, d0) \<Rightarrow> (catch_with_zod ''Failed to update asset'' e, d0)
      | (Inr None, d0) \<Rightarrow> (Response 404 (Message ''Asset not found''), d0)
      | (Inr (Some oldAsset), d0) \<Rightarrow>
         (case insertAssetSchema_partial_parse b of
            Inl e \<Rightarrow> (catch_with_zod ''Failed to update asset'' e, d0)
          | Inr validatedData \<Rightarrow>
             (case storage_updateAsset (req_now req) ident validatedData d0 of
                (Inl e, d1) \<Rightarrow> (catch_with_zod ''Failed to update asset'' e, d1)
              | (Inr updatedAsset, d1) \<Rightarrow>
                 (case createAuditLog ''asset'' ident ''update'' req
                         (Some (AssetSnap oldAsset)) (map_option AssetSnap updatedAsset) d1 of
                    (Inl e, d2) \<Rightarrow> (catch_with_zod ''Failed to update asset'' e, d2)
                  | (Inr u, d2) \<Rightarrow> (Response 200 (AssetJson updatedAsset), d2)))))"

definition delete_asset :: "ctx \<Rightarrow> string \<Rightarrow> db \<Rightarrow> response \<times> db" where
  "delete_asset req ident d =
     (case storage_getAsset ident d of
        (Inl e, d0) \<Rightarrow> (Response 500 (Message ''Failed to delete asset''), d0)
      | (Inr None, d0) \<Rightarrow> (Response 404 (Message ''Asset not found''), d0)
      | (Inr (Some asset), d0) \<Rightarrow>
         (case storage_deleteAsset ident d0 of
            (Inl e, d1) \<Rightarrow> (Response 500 (Message ''Failed to delete asset''), d1)
          | (Inr u, d1) \<Rightarrow>
             (case createAuditLog ''asset'' ident ''delete'' req
                     (Some (AssetSnap asset)) None d1 of
                (Inl e, d2) \<Rightarrow> (Response 500 (Message ''Failed to delete asset''), d2)
              | (Inr u', d2) \<Rightarrow> (Response 204 Empty, d2))))"

text \<open>\<^verbatim>\<open>POST /api/workflows\<close> and \<^verbatim>\<open>PUT /api/workflows/:id\<close>.\<close>

definition post_workflows :: "ctx \<Rightarrow> workflow_body \<Rightarrow> db \<Rightarrow> response \<times> db" where
  "post_workflows req b d =
     (case req_user req of
        None \<Rightarrow> (catch_with_zod ''Failed to create workflow'' TypeError, d)
      | Some sub \<Rightarrow>
         (case insertWorkflowSchema_parse (b\<lparr>wb_requestedBy := Val sub\<rparr>) of
            Inl e \<Rightarrow> (catch_with_zod ''Failed to create workflow'' e, d)
          | Inr validatedData \<Rightarrow>
             (case storage_createWorkflow (req_now req) validatedData d of
                (Inl e, d1) \<Rightarrow> (catch_with_zod ''Failed to create workflow'' e, d1)
              | (Inr workflow, d1) \<Rightarrow>
                 (case createAuditLog ''workflow'' (w_id workflow) ''create'' req
                         None (Some (WorkflowSnap workflow)) d1 of
                    (Inl e, d2) \<Rightarrow> (catch_with_zod ''Failed to create workflow'' e, d2)
                  | (Inr u, d2) \<Rightarrow> (Response 201 (WorkflowJson (Some workflow)), d2)))))"

definition put_workflow :: "ctx \<Rightarrow> string \<Rightarrow> workflow_body \<Rightarrow> db \<Rightarrow> response \<times> db" where
  "put_workflow req ident b d =
     (case storage_getWorkflow ident d of
        (Inl e, d0) \<Rightarrow> (catch_with_zod ''Failed to update workflow'' e, d0)
      | (Inr None, d0) \<Rightarrow> (Response 404 (Message ''Workflow not found''), d0)
      | (Inr (Some oldWorkflow), d0) \<Rightarrow>
         (case insertWorkflowSchema_partial_parse b of
            Inl e \<Rightarrow> (catch_with_zod ''Failed to update workflow'' e, d0)
          | Inr validatedData \<Rightarrow>
             (case storage_updateWorkflow (req_now req) ident validatedData d0 of
                (Inl e, d1) \<Rightarrow> (catch_with_zod ''Failed to update workflow'' e, d1)
              | (Inr updatedWorkflow, d1) \<Rightarrow>
                 (case createAuditLog ''workflow'' ident ''update'' req
                         (Some (WorkflowSnap oldWorkflow))
                         (map_option WorkflowSnap updatedWorkflow) d1 of
                    (Inl e, d2) \<Rightarrow> (catch_with_zod ''Failed to update workflow'' e, d2)
                  | (Inr u, d2) \<Rightarrow> (Response 200 (WorkflowJson updatedWorkflow), d2)))))"

subsection \<open>Numbers of the query string\<close>

text \<open>
  A JavaScript number is \<^verbatim>\<open>NaN\<close>, an infinity or a finite value; a finite double is a real
  number, and the bounds the routes compare with are doubles themselves, so the
  comparisons are those of the reals. Every comparison with \<^verbatim>\<open>NaN\<close> is false.
  \<^verbatim>\<open>parseFloat\<close> and \<^verbatim>\<open>parseInt\<close> are the language's own functions and are parameters of the
  handlers; \<^verbatim>\<open>parseInt\<close> yields \<open>None\<close> for \<^verbatim>\<open>NaN\<close> and an integer otherwise, and a key
  missing from the query string parses to \<^verbatim>\<open>NaN\<close>.
\<close>

datatype jsnum = NaN | NegInf | Fin real | PosInf

fun isNaN :: "jsnum \<Rightarrow> bool" where
  "isNaN NaN = True"
| "isNaN _ = False"

fun js_less :: "jsnum \<Rightarrow> jsnum \<Rightarrow> bool" where
  "js_less NaN _ = False"
| "js_less _ NaN = False"
| "js_less _ NegInf = False"
| "js_less NegInf _ = True"
| "js_less PosInf _ = False"
| "js_less (Fin x) (Fin y) = (x < y)"
| "js_less (Fin x) PosInf = True"

fun js_less_eq :: "jsnum \<Rightarrow> jsnum \<Rightarrow> bool" where
  "js_less_eq NaN _ = False"
| "js_less_eq _ NaN = False"
| "js_less_eq NegInf _ = True"
| "js_less_eq _ PosInf = True"
| "js_less_eq PosInf _ = False"
| "js_less_eq (Fin x) (Fin y) = (x \<le> y)"
| "js_less_eq (Fin x) NegInf = False"

definition js_greater :: "jsnum \<Rightarrow> jsnum \<Rightarrow> bool" where
  "js_greater a b = js_less b a"

text \<open>\<^verbatim>\<open>x || d\<close> on a number: \<^verbatim>\<open>NaN\<close> and \<^verbatim>\<open>0\<close> are falsy.\<close>

fun or_default :: "int option \<Rightarrow> int \<Rightarrow> int" where
  "or_default None d = d"
| "or_default (Some n) d = (if n = 0 then d else n)"

fun parse_query_int :: "(string \<Rightarrow> int option) \<Rightarrow> string option \<Rightarrow> int option" where
  "parse_query_int parseInt None = None"
| "parse_query_int parseInt (Some s) = parseInt s"

text \<open>\<^verbatim>\<open>!q\<close> on a key of the query string: missing or empty.\<close>

fun missing :: "string option \<Rightarrow> bool" where
  "missing None = True"
| "missing (Some s) = (s = [])"

fun query_string :: "string option \<Rightarrow> string" where
  "query_string None = []"
| "query_string (Some s) = s"

record spatial_query =
  q_lng :: "string option"
  q_lat :: "string option"
  q_radius :: "string option"

record list_query =
  q_limit :: "string option"
  q_offset :: "string option"
  q_search :: "string option"

text \<open>\<^verbatim>\<open>GET /api/spatial/assets\<close>. After the four checks the three numbers are finite, so the
  last branch of the final case is never taken.\<close>

definition get_spatial_assets ::
  "(string \<Rightarrow> jsnum) \<Rightarrow> (geopoint \<Rightarrow> geopoint \<Rightarrow> real \<Rightarrow> bool) \<Rightarrow> (geopoint \<Rightarrow> geopoint \<Rightarrow> real)
     \<Rightarrow> spatial_query \<Rightarrow> db \<Rightarrow> response \<times> db" where
  "get_spatial_assets parseFloat st_dwithin st_distance q d =
     (if missing (q_lng q) \<or> missing (q_lat q) \<or> missing (q_radius q)
      then (Response 400 (Message ''longitude, latitude, and radius are required''), d)
      else
        let longitude = parseFloat (query_string (q_lng q));
            latitude = parseFloat (query_string (q_lat q));
            radiusMeters = parseFloat (query_string (q_radius q))
        in if isNaN longitude \<or> isNaN latitude \<or> isNaN radiusMeters
           then (Response 400 (Message ''Invalid coordinate or radius values''), d)
           else if js_less longitude (Fin (- 180)) \<or> js_greater longitude (Fin 180)
           then (Response 400 (Message ''Longitude must be between -180 and 180''), d)
           else if js_less latitude (Fin (- 90)) \<or> js_greater latitude (Fin 90)
           then (Response 400 (Message ''Latitude must be between -90 and 90''), d)
           else if js_less_eq radiusMeters (Fin 0) \<or> js_greater radiusMeters (Fin 100000)
           then (Response 400 (Message ''Radius must be between 0 and 100,000 meters''), d)
           else
             (case (longitude, latitude, radiusMeters) of
                (Fin lng, Fin lat, Fin r) \<Rightarrow>
                  (case storage_getAssetsNearLocation st_dwithin st_distance lng lat r d of
                     (Inl e, d1) \<Rightarrow> (Response 500 (Message ''Failed to find nearby assets''), d1)
                   | (Inr nearbyAssets, d1) \<Rightarrow> (Response 200 (NearbyAssets nearbyAssets), d1))
              | _ \<Rightarrow> (Response 500 (Message ''Failed to find nearby assets''), d)))"

text \<open>
  The body of the location route: a key that is missing or not a JSON number is
  \<open>Absent\<close> or \<open>Null\<close>. \<^verbatim>\<open>z.number().min(lo).max(hi)\<close> accepts a number within the bounds.
\<close>

record location_body =
  lb_longitude :: "real field"
  lb_latitude :: "real field"

fun z_number_min_max :: "real \<Rightarrow> real \<Rightarrow> real field \<Rightarrow> error + real" where
  "z_number_min_max lo hi (Val x) = (if x < lo \<or> hi < x then Inl ZodError else Inr x)"
| "z_number_min_max lo hi _ = Inl ZodError"

definition locationSchema_parse :: "location_body \<Rightarrow> error + real \<times> real" where
  "locationSchema_parse b =
     (case z_number_min_max (- 180) 180 (lb_longitude b) of
        Inl e \<Rightarrow> Inl e
      | Inr lng \<Rightarrow>
         (case z_number_min_max (- 90) 90 (lb_latitude b) of
            Inl e \<Rightarrow> Inl e
          | Inr lat \<Rightarrow> Inr (lng, lat)))"

text \<open>\<^verbatim>\<open>PUT /api/assets/:id/location\<close>.\<close>

definition put_asset_location :: "ctx \<Rightarrow> string \<Rightarrow> location_body \<Rightarrow> db \<Rightarrow> response \<times> db" where
  "put_asset_location req ident b d =
     (case locationSchema_parse b of
        Inl e \<Rightarrow> (catch_with_zod ''Failed to update asset location'' e, d)
      | Inr (lng, lat) \<Rightarrow>
         (case storage_getAsset ident d of
            (Inl e, d0) \<Rightarrow> (catch_with_zod ''Failed to update asset location'' e, d0)
          | (Inr None, d0) \<Rightarrow> (Response 404 (Message ''Asset not found''), d0)
          | (Inr (Some existingAsset), d0) \<Rightarrow>
             (case req_user req of
                None \<Rightarrow> (catch_with_zod ''Failed to update asset location'' TypeError, d0)
              | Some uid \<Rightarrow>
                 if a_custodianId existingAsset \<noteq> Some uid
                    \<and> a_createdBy existingAsset \<noteq> Some uid
                 then (Response 403
                         (Message ''You don't have permission to update this asset's location''), d0)
                 else
                   (case storage_updateAssetLocation (req_now req) ident lng lat d0 of
                      (Inl e, d1) \<Rightarrow> (catch_with_zod ''Failed to update asset location'' e, d1)
                    | (Inr asset, d1) \<Rightarrow>
                       (case createAuditLog ''asset'' ident ''location_update'' req
                               (Some (LocationSnap (a_location existingAsset)))
                               (Some (LocationSnap (Some \<lparr> longitude = lng, latitude = lat \<rparr>)))
                               d1 of
                          (Inl e, d2) \<Rightarrow>
                            (catch_with_zod ''Failed to update asset location'' e, d2)
                        | (Inr u, d2) \<Rightarrow> (Response 200 (AssetJson asset), d2))))))"

text \<open>\<^verbatim>\<open>GET /api/assets\<close> and \<^verbatim>\<open>GET /api/audit-logs\<close>.\<close>

definition get_assets ::
  "(string \<Rightarrow> int option) \<Rightarrow> (string \<Rightarrow> string \<Rightarrow> bool) \<Rightarrow> list_query \<Rightarrow> db \<Rightarrow> response \<times> db" where
  "get_assets parseInt like q d =
     (let limit = or_default (parse_query_int parseInt (q_limit q)) 20;
          offset = or_default (parse_query_int parseInt (q_offset q)) 0
      in case storage_getAssets like limit offset (q_search q) d of
           (Inl e, d1) \<Rightarrow> (Response 500 (Message ''Failed to fetch assets''), d1)
         | (Inr (assetsList, totalCount), d1) \<Rightarrow>
             (Response 200 (AssetsPage assetsList totalCount), d1))"

definition get_audit_logs ::
  "(string \<Rightarrow> int option) \<Rightarrow> list_query \<Rightarrow> db \<Rightarrow> response \<times> db" where
  "get_audit_logs parseInt q d =
     (let limit = or_default (parse_query_int parseInt (q_limit q)) 50;
          offset = or_default (parse_query_int parseInt (q_offset q)) 0
      in case storage_getAuditLogs limit offset d of
           (Inl e, d1) \<Rightarrow> (Response 500 (Message ''Failed to fetch audit logs''), d1)
         | (Inr (logs, totalCount), d1) \<Rightarrow>
             (Response 200 (AuditLogsPage logs totalCount), d1))"

section \<open>Notions of the specification\<close>

text \<open>
  The authenticated actor of a request is \<^verbatim>\<open>req.user?.claims?.sub\<close> when it is truthy.
  \<open>records\<close> reads the columns of an audit row that the specification names;
  \<open>audit_effect\<close> is the effect of one mutation on the audit trail: exactly one new row
  for the actor, or none when there is no actor. The invariant of a workflow relates
  \<^verbatim>\<open>completedDate\<close> and \<^verbatim>\<open>status\<close>.
\<close>

definition actor :: "ctx \<Rightarrow> string option" where
  "actor req = (case req_user req of None \<Rightarrow> None | Some sub \<Rightarrow> if sub = [] then None else Some sub)"

definition records ::
  "auditLog \<Rightarrow> string \<Rightarrow> string \<Rightarrow> string \<Rightarrow> string \<Rightarrow> snapshot option \<Rightarrow> snapshot option \<Rightarrow> bool" where
  "records row etype eid act sub old new =
     (al_entityType row = etype \<and> al_entityId row = eid \<and> al_action row = act
      \<and> al_userId row = sub \<and> al_oldValues row = old \<and> al_newValues row = new)"

definition audit_effect ::
  "ctx \<Rightarrow> db \<Rightarrow> db \<Rightarrow> string \<Rightarrow> string \<Rightarrow> string \<Rightarrow> snapshot option \<Rightarrow> snapshot option \<Rightarrow> bool" where
  "audit_effect req d d' etype eid act old new =
     (case actor req of
        None \<Rightarrow> auditLogs d' = auditLogs d
      | Some sub \<Rightarrow> (\<exists>row. auditLogs d' = auditLogs d @ [row] \<and> records row etype eid act sub old new))"

definition completedDate_invariant :: "workflow \<Rightarrow> bool" where
  "completedDate_invariant w =
     ((w_completedDate w \<noteq> None) = (w_status w \<in> {Some Approved, Some Rejected, Some Completed}))"

text \<open>A number lies in \<open>[lo, hi]\<close>; a radius lies in \<open>(0, 100000]\<close>.\<close>

definition in_range :: "real \<Rightarrow> real \<Rightarrow> jsnum \<Rightarrow> bool" where
  "in_range lo hi v = (case v of Fin x \<Rightarrow> lo \<le> x \<and> x \<le> hi | _ \<Rightarrow> False)"

definition radius_ok :: "jsnum \<Rightarrow> bool" where
  "radius_ok v = (case v of Fin z \<Rightarrow> 0 < z \<and> z \<le> 100000 | _ \<Rightarrow> False)"

section \<open>Sample stores and requests\<close>

text \<open>The store after the migration: empty tables, the sequences at their start values.\<close>

definition fresh_db :: db where
  "fresh_db = \<lparr> assets = [], workflows = [], workOrders = [], auditLogs = [], asset_seq = 1000,
                 workflow_seq = 1000, audit_logs_id_seq = 1, rejecting = {} \<rparr>"

definition alice :: ctx where
  "alice = \<lparr> req_user = Some ''alice'', req_ip = Some ''10.0.0.1'',
              req_userAgent = Some ''curl'', req_now = 5 \<rparr>"

definition empty_asset_body :: asset_body where
  "empty_asset_body =
     \<lparr> ab_name = Absent, ab_description = Absent, ab_category = Absent,
       ab_serialNumber = Absent, ab_status = Absent, ab_custodianId = Absent,
       ab_location = Absent, ab_createdBy = Absent \<rparr>"

definition generator_body :: asset_body where
  "generator_body =
     empty_asset_body\<lparr> ab_name := Val ''Generator'', ab_category := Val ''equipment'' \<rparr>"

definition empty_workflow_body :: workflow_body where
  "empty_workflow_body =
     \<lparr> wb_type = Absent, wb_title = Absent, wb_description = Absent,
       wb_status = Absent, wb_requestedBy = Absent, wb_assetId = Absent,
       wb_completedDate = Absent, wb_comments = Absent \<rparr>"

definition purchase_body :: workflow_body where
  "purchase_body =
     empty_workflow_body\<lparr> wb_type := Val ''purchase'', wb_title := Val ''Pump'' \<rparr>"

definition approved_workflow :: workflow where
  "approved_workflow =
     \<lparr> w_id = ''WFL-1000'', w_type = Purchase, w_title = ''Pump'', w_description = None,
       w_status = Some Approved, w_requestedBy = Some ''alice'', w_assetId = None,
       w_completedDate = Some 3, w_comments = None, w_createdAt = 1, w_updatedAt = 3 \<rparr>"

definition db_approved :: db where
  "db_approved = fresh_db\<lparr> workflows := [approved_workflow], workflow_seq := 1001 \<rparr>"

definition anonymous :: ctx where
  "anonymous = \<lparr> req_user = Some [], req_ip = None, req_userAgent = None, req_now = 7 \<rparr>"

definition generator_asset :: asset where
  "generator_asset =
     \<lparr> a_id = ''AST-1000'', a_name = ''Generator'', a_description = None,
       a_category = Equipment, a_serialNumber = None, a_status = Some Active,
       a_custodianId = None, a_location = None, a_createdBy = Some ''alice'',
       a_createdAt = 5, a_updatedAt = 5 \<rparr>"

definition db_generator :: db where
  "db_generator = snd (post_assets alice generator_body fresh_db)"

definition rename_body :: asset_body where
  "rename_body = empty_asset_body\<lparr> ab_name := Val ''Generator 2'' \<rparr>"

definition db_pump :: db where
  "db_pump = snd (post_workflows alice purchase_body fresh_db)"

definition pump_workflow :: workflow where
  "pump_workflow =
     \<lparr> w_id = ''WFL-1000'', w_type = Purchase, w_title = ''Pump'', w_description = None,
       w_status = Some Pending, w_requestedBy = Some ''alice'', w_assetId = None,
       w_completedDate = None, w_comments = None, w_createdAt = 5, w_updatedAt = 5 \<rparr>"

text \<open>
  The body the client sends from \<^verbatim>\<open>handleApprove\<close>, an approval without date, a comment,
  and a return to pending.
\<close>

definition approve_body :: workflow_body where
  "approve_body =
     empty_workflow_body\<lparr> wb_status := Val ''approved'',
                          wb_completedDate := Val ''2024-05-01T10:00:00.000Z'' \<rparr>"

definition comment_body :: workflow_body where
  "comment_body = empty_workflow_body\<lparr> wb_comments := Val ''checked'' \<rparr>"

definition reopen_body :: workflow_body where
  "reopen_body = empty_workflow_body\<lparr> wb_status := Val ''pending'', wb_completedDate := Null \<rparr>"

definition approve_only_body :: workflow_body where
  "approve_only_body = empty_workflow_body\<lparr> wb_status := Val ''approved'' \<rparr>"

definition audit_down :: "db \<Rightarrow> db" where
  "audit_down d = d\<lparr> rejecting := {CreateAuditLog} \<rparr>"

definition location_body_nyc :: location_body where
  "location_body_nyc = \<lparr> lb_longitude = Val (- 74), lb_latitude = Val 41 \<rparr>"

text \<open>
  A stand-in for the language's \<^verbatim>\<open>parseFloat\<close> on the strings of the sample queries.
\<close>

definition sample_parseFloat :: "string \<Rightarrow> jsnum" where
  "sample_parseFloat s =
     (if s = ''0'' then Fin 0 else if s = ''100'' then Fin 100
      else if s = ''200'' then Fin 200 else if s = ''200000'' then Fin 200000
      else NaN)"

definition spatial :: "string \<Rightarrow> string \<Rightarrow> string \<Rightarrow> spatial_query" where
  "spatial l a r = \<lparr> q_lng = Some l, q_lat = Some a, q_radius = Some r \<rparr>"

text \<open>Three assets, two of them located.\<close>

definition asset_east :: asset where
  "asset_east = generator_asset\<lparr> a_location := Some \<lparr> longitude = 1, latitude = 0 \<rparr> \<rparr>"

definition asset_here :: asset where
  "asset_here = generator_asset\<lparr> a_id := ''AST-1001'',
                                 a_location := Some \<lparr> longitude = 0, latitude = 0 \<rparr> \<rparr>"

definition asset_nowhere :: asset where
  "asset_nowhere = generator_asset\<lparr> a_id := ''AST-1002'' \<rparr>"

definition db_three :: db where
  "db_three = fresh_db\<lparr> assets := [asset_east, asset_here, asset_nowhere], asset_seq := 1003 \<rparr>"

text \<open>Stand-ins for \<^verbatim>\<open>parseInt\<close> and for \<^verbatim>\<open>LIKE\<close> on the sample queries.\<close>

definition sample_parseInt :: "string \<Rightarrow> int option" where
  "sample_parseInt s =
     (if s = ''0'' then Some 0 else if s = ''20'' then Some 20
      else if s = ''50'' then Some 50 else None)"

definition sample_like :: "string \<Rightarrow> string \<Rightarrow> bool" where
  "sample_like t pat = (pat = ''%'' @ t @ ''%'')"

definition listing :: "string option \<Rightarrow> string option \<Rightarrow> list_query" where
  "listing l off = \<lparr> q_limit = l, q_offset = off, q_search = None \<rparr>"


section \<open>Properties\<close>

lemmas schema_defs =
  insertAssetSchema_parse_def insertAssetSchema_partial_parse_def
  insertWorkflowSchema_parse_def insertWorkflowSchema_partial_parse_def
  asset_status_enum_def asset_category_enum_def workflow_status_enum_def workflow_type_enum_def

lemmas storage_defs =
  storage_getAsset_def storage_createAsset_def storage_updateAsset_def storage_deleteAsset_def
  storage_getWorkflow_def storage_createWorkflow_def storage_updateWorkflow_def
  storage_createAuditLog_def storage_updateAssetLocation_def createAuditLog_def
  asset_set_def workflow_set_def asset_id_default_def workflow_id_default_def
  to_char_FM0000_def digit_char_def

lemmas sample_defs =
  fresh_db_def alice_def anonymous_def empty_asset_body_def generator_body_def rename_body_def
  generator_asset_def empty_workflow_body_def purchase_body_def approved_workflow_def
  db_approved_def pump_workflow_def approve_body_def approve_only_body_def
  comment_body_def reopen_body_def

subsection \<open>Rows found by key\<close>

lemma find_map_upd:
  "(\<And>x. key (f x) = key x) \<Longrightarrow>
   find (\<lambda>x. key x = i) (map (\<lambda>x. if key x = i then f x else x) xs)
     = map_option f (find (\<lambda>x. key x = i) xs)"
  by (induction xs) auto

lemma find_Some_key: "find (\<lambda>x. key x = i) xs = Some y \<Longrightarrow> key y = i \<and> y \<in> set xs"
  by (induction xs) (auto split: if_splits)

lemma find_None_key: "find (\<lambda>x. key x = i) xs = None \<longleftrightarrow> i \<notin> set (map key xs)"
  by (induction xs) auto

lemma w_id_workflow_set [simp]: "w_id (workflow_set now v w) = w_id w"
  by (simp add: workflow_set_def)

lemma a_id_asset_set [simp]: "a_id (asset_set now v a) = a_id a"
  by (simp add: asset_set_def)

subsection \<open>Identifier allocation\<close>

lemma asset_id_default_four_digits:
  assumes "1000 \<le> n" and "n < 10000"
  shows "asset_id_default n =
           ''AST-'' @ [digit_char (n div 1000), digit_char (n div 100),
                       digit_char (n div 10), digit_char n]"
  using assms by (simp add: asset_id_default_def to_char_FM0000_def)

text \<open>
  C5. The first identifier is \<^verbatim>\<open>AST-1000\<close>, but the template does not grow: the
  sequence values 10000 and 10001 both print as \<^verbatim>\<open>AST-####\<close>, and with the sequence at
  10000 the second of two creations fails on the primary key.
\<close>

theorem asset_id_default_past_9999:
  "asset_id_default 1000 = ''AST-1000''
   \<and> asset_id_default 10000 = ''AST-####''
   \<and> asset_id_default 10001 = asset_id_default 10000
   \<and> res_status (fst (post_assets alice generator_body (fresh_db\<lparr>asset_seq := 10000\<rparr>))) = 201
   \<and> res_status (fst (post_assets alice generator_body
        (snd (post_assets alice generator_body (fresh_db\<lparr>asset_seq := 10000\<rparr>))))) = 500"
  by (simp add: post_assets_def sample_defs schema_defs storage_defs Let_def)

subsection \<open>Workflow updates\<close>








subsection \<open>Successful mutations and the audit trail\<close>

lemma catch_with_zod_200 [simp]: "catch_with_zod m e \<noteq> Response 200 bd"
  and catch_with_zod_201 [simp]: "catch_with_zod m e \<noteq> Response 201 bd"
  and catch_with_zod_204 [simp]: "catch_with_zod m e \<noteq> Response 204 bd"
  by (cases e; simp)+

lemma createAuditLog_Inr:
  assumes "createAuditLog etype eid act req old new d = (Inr u, d')"
  shows "audit_effect req d d' etype eid act old new
         \<and> assets d' = assets d \<and> workflows d' = workflows d
         \<and> asset_seq d' = asset_seq d \<and> workflow_seq d' = workflow_seq d
         \<and> rejecting d' = rejecting d"
  using assms
  by (auto simp: createAuditLog_def storage_createAuditLog_def audit_effect_def actor_def
                 records_def Let_def split: option.splits if_splits)

lemma createAuditLog_Inl:
  assumes "createAuditLog etype eid act req old new d = (Inl e, d')"
  shows "d' = d \<and> CreateAuditLog \<in> rejecting d \<and> actor req \<noteq> None"
  using assms
  by (auto simp: createAuditLog_def storage_createAuditLog_def actor_def Let_def
           split: option.splits if_splits)

lemma post_assets_201:
  assumes "post_assets req b d = (Response 201 bd, d')"
  shows "\<exists>asset. bd = AssetJson (Some asset) \<and> asset \<in> set (assets d')
           \<and> a_id asset \<notin> set (map a_id (assets d))
           \<and> audit_effect req d d' ''asset'' (a_id asset) ''create'' None (Some (AssetSnap asset))"
proof -
  from assms obtain sub v asset d1 u where
    s: "req_user req = Some sub"
    and c: "storage_createAsset (req_now req) v d = (Inr asset, d1)"
    and a: "createAuditLog ''asset'' (a_id asset) ''create'' req None (Some (AssetSnap asset)) d1
              = (Inr u, d')"
    and bd: "bd = AssetJson (Some asset)"
    by (auto simp: post_assets_def split: option.splits sum.splits prod.splits)
  from c have m: "asset \<in> set (assets d1)" "a_id asset \<notin> set (map a_id (assets d))"
      "auditLogs d1 = auditLogs d"
    by (auto simp: storage_createAsset_def Let_def split: if_splits field.splits)
  from createAuditLog_Inr [OF a] m bd show ?thesis
    by (auto simp: audit_effect_def split: option.splits)
qed


lemma storage_updateAsset_Inr:
  assumes "storage_updateAsset now ident v d = (Inr upd, d1)"
    and "find (\<lambda>a. a_id a = ident) (assets d) = Some old"
  shows "upd = Some (asset_set now v old)
         \<and> find (\<lambda>a. a_id a = ident) (assets d1) = Some (asset_set now v old)
         \<and> auditLogs d1 = auditLogs d"
  using assms
  by (auto simp: storage_updateAsset_def Let_def find_map_upd split: if_splits)

lemma storage_updateWorkflow_Inr:
  assumes "storage_updateWorkflow now ident v d = (Inr upd, d1)"
    and "find (\<lambda>w. w_id w = ident) (workflows d) = Some old"
  shows "upd = Some (workflow_set now v old)
         \<and> find (\<lambda>w. w_id w = ident) (workflows d1) = Some (workflow_set now v old)
         \<and> auditLogs d1 = auditLogs d"
  using assms
  by (auto simp: storage_updateWorkflow_def Let_def find_map_upd split: if_splits)

lemma put_asset_200:
  assumes "put_asset req ident b d = (Response 200 bd, d')"
  shows "\<exists>old new. find (\<lambda>a. a_id a = ident) (assets d) = Some old
           \<and> bd = AssetJson (Some new)
           \<and> find (\<lambda>a. a_id a = ident) (assets d') = Some new
           \<and> audit_effect req d d' ''asset'' ident ''update''
                (Some (AssetSnap old)) (Some (AssetSnap new))"
proof -
  from assms obtain old v upd d1 u where
    g: "find (\<lambda>a. a_id a = ident) (assets d) = Some old"
    and c: "storage_updateAsset (req_now req) ident v d = (Inr upd, d1)"
    and a: "createAuditLog ''asset'' ident ''update'' req (Some (AssetSnap old))
              (map_option AssetSnap upd) d1 = (Inr u, d')"
    and bd: "bd = AssetJson upd"
    by (auto simp: put_asset_def storage_getAsset_def
             split: option.splits sum.splits prod.splits if_splits)
  from storage_updateAsset_Inr [OF c g] createAuditLog_Inr [OF a] g bd show ?thesis
    by (auto simp: audit_effect_def split: option.splits)
qed

lemma delete_asset_204:
  assumes "delete_asset req ident d = (Response 204 bd, d')"
  shows "\<exists>old. find (\<lambda>a. a_id a = ident) (assets d) = Some old
           \<and> ident \<notin> set (map a_id (assets d'))
           \<and> audit_effect req d d' ''asset'' ident ''delete'' (Some (AssetSnap old)) None"
proof -
  from assms obtain old d1 u where
    g: "find (\<lambda>a. a_id a = ident) (assets d) = Some old"
    and c: "storage_deleteAsset ident d = (Inr (), d1)"
    and a: "createAuditLog ''asset'' ident ''delete'' req (Some (AssetSnap old)) None d1
              = (Inr u, d')"
    by (auto simp: delete_asset_def storage_getAsset_def
             split: option.splits sum.splits prod.splits if_splits)
  from c have m: "ident \<notin> set (map a_id (assets d1))" "auditLogs d1 = auditLogs d"
    by (auto simp: storage_deleteAsset_def split: if_splits)
  from createAuditLog_Inr [OF a] m g show ?thesis
    by (auto simp: audit_effect_def split: option.splits)
qed

lemma post_workflows_201:
  assumes "post_workflows req b d = (Response 201 bd, d')"
  shows "\<exists>w v. bd = WorkflowJson (Some w) \<and> w \<in> set (workflows d')
           \<and> insertWorkflowSchema_parse (b\<lparr>wb_requestedBy := Val (the (req_user req))\<rparr>) = Inr v
           \<and> w_status w = column_value (Some Pending) (wv_status v)
           \<and> w_completedDate w = column_value None (wv_completedDate v)
           \<and> audit_effect req d d' ''workflow'' (w_id w) ''create'' None (Some (WorkflowSnap w))"
proof -
  from assms obtain sub v w d1 u where
    s: "req_user req = Some sub"
    and p: "insertWorkflowSchema_parse (b\<lparr>wb_requestedBy := Val sub\<rparr>) = Inr v"
    and c: "storage_createWorkflow (req_now req) v d = (Inr w, d1)"
    and a: "createAuditLog ''workflow'' (w_id w) ''create'' req None (Some (WorkflowSnap w)) d1
              = (Inr u, d')"
    and bd: "bd = WorkflowJson (Some w)"
    by (auto simp: post_workflows_def split: option.splits sum.splits prod.splits)
  from c have m: "w \<in> set (workflows d1)" "auditLogs d1 = auditLogs d"
      "w_status w = column_value (Some Pending) (wv_status v)"
      "w_completedDate w = column_value None (wv_completedDate v)"
    by (auto simp: storage_createWorkflow_def Let_def split: if_splits field.splits)
  from createAuditLog_Inr [OF a] m bd s p show ?thesis
    by (auto simp: audit_effect_def split: option.splits)
qed

lemma put_workflow_200:
  assumes "put_workflow req ident b d = (Response 200 bd, d')"
  shows "\<exists>old v. find (\<lambda>w. w_id w = ident) (workflows d) = Some old
           \<and> insertWorkflowSchema_partial_parse b = Inr v
           \<and> bd = WorkflowJson (Some (workflow_set (req_now req) v old))
           \<and> find (\<lambda>w. w_id w = ident) (workflows d') = Some (workflow_set (req_now req) v old)
           \<and> audit_effect req d d' ''workflow'' ident ''update''
                (Some (WorkflowSnap old)) (Some (WorkflowSnap (workflow_set (req_now req) v old)))"
proof -
  from assms obtain old v upd d1 u where
    g: "find (\<lambda>w. w_id w = ident) (workflows d) = Some old"
    and p: "insertWorkflowSchema_partial_parse b = Inr v"
    and c: "storage_updateWorkflow (req_now req) ident v d = (Inr upd, d1)"
    and a: "createAuditLog ''workflow'' ident ''update'' req (Some (WorkflowSnap old))
              (map_option WorkflowSnap upd) d1 = (Inr u, d')"
    and bd: "bd = WorkflowJson upd"
    by (auto simp: put_workflow_def storage_getWorkflow_def
             split: option.splits sum.splits prod.splits if_splits)
  from storage_updateWorkflow_Inr [OF c g] createAuditLog_Inr [OF a] g p bd show ?thesis
    by (auto simp: audit_effect_def split: option.splits)
qed

text \<open>
  C2. A create, update or delete that answers with its success status has performed the
  mutation and has written exactly one audit row for the actor, with the entity's
  identifier and the action of the call; the old snapshot is absent on create and the new
  one on delete. Without an actor the audit trail is unchanged and the mutation is in
  the store all the same.
\<close>

theorem mutation_audit_record:
  "(post_assets req ab d = (Response 201 bd, d') \<longrightarrow>
      (\<exists>asset. bd = AssetJson (Some asset) \<and> asset \<in> set (assets d')
         \<and> audit_effect req d d' ''asset'' (a_id asset) ''create'' None (Some (AssetSnap asset))))
   \<and> (put_asset req ident ab d = (Response 200 bd, d') \<longrightarrow>
      (\<exists>old new. find (\<lambda>a. a_id a = ident) (assets d) = Some old
         \<and> bd = AssetJson (Some new)
         \<and> find (\<lambda>a. a_id a = ident) (assets d') = Some new
         \<and> audit_effect req d d' ''asset'' ident ''update''
              (Some (AssetSnap old)) (Some (AssetSnap new))))
   \<and> (delete_asset req ident d = (Response 204 bd, d') \<longrightarrow>
      (\<exists>old. find (\<lambda>a. a_id a = ident) (assets d) = Some old
         \<and> ident \<notin> set (map a_id (assets d'))
         \<and> audit_effect req d d' ''asset'' ident ''delete'' (Some (AssetSnap old)) None))
   \<and> (post_workflows req wb d = (Response 201 bd, d') \<longrightarrow>
      (\<exists>w. bd = WorkflowJson (Some w) \<and> w \<in> set (workflows d')
         \<and> audit_effect req d d' ''workflow'' (w_id w) ''create'' None (Some (WorkflowSnap w))))
   \<and> (put_workflow req ident wb d = (Response 200 bd, d') \<longrightarrow>
      (\<exists>old new. find (\<lambda>w. w_id w = ident) (workflows d) = Some old
         \<and> bd = WorkflowJson (Some new)
         \<and> find (\<lambda>w. w_id w = ident) (workflows d') = Some new
         \<and> audit_effect req d d' ''workflow'' ident ''update''
              (Some (WorkflowSnap old)) (Some (WorkflowSnap new))))"
proof (intro conjI impI)
  assume "post_assets req ab d = (Response 201 bd, d')"
  from post_assets_201 [OF this]
  show "\<exists>asset. bd = AssetJson (Some asset) \<and> asset \<in> set (assets d')
         \<and> audit_effect req d d' ''asset'' (a_id asset) ''create'' None (Some (AssetSnap asset))"
    by blast
next
  assume "put_asset req ident ab d = (Response 200 bd, d')"
  from put_asset_200 [OF this]
  show "\<exists>old new. find (\<lambda>a. a_id a = ident) (assets d) = Some old
         \<and> bd = AssetJson (Some new)
         \<and> find (\<lambda>a. a_id a = ident) (assets d') = Some new
         \<and> audit_effect req d d' ''asset'' ident ''update''
              (Some (AssetSnap old)) (Some (AssetSnap new))" .
next
  assume "delete_asset req ident d = (Response 204 bd, d')"
  from delete_asset_204 [OF this]
  show "\<exists>old. find (\<lambda>a. a_id a = ident) (assets d) = Some old
         \<and> ident \<notin> set (map a_id (assets d'))
         \<and> audit_effect req d d' ''asset'' ident ''delete'' (Some (AssetSnap old)) None" .
next
  assume "post_workflows req wb d = (Response 201 bd, d')"
  from post_workflows_201 [OF this]
  show "\<exists>w. bd = WorkflowJson (Some w) \<and> w \<in> set (workflows d')
         \<and> audit_effect req d d' ''workflow'' (w_id w) ''create'' None (Some (WorkflowSnap w))"
    by blast
next
  assume "put_workflow req ident wb d = (Response 200 bd, d')"
  from put_workflow_200 [OF this]
  show "\<exists>old new. find (\<lambda>w. w_id w = ident) (workflows d) = Some old
         \<and> bd = WorkflowJson (Some new)
         \<and> find (\<lambda>w. w_id w = ident) (workflows d') = Some new
         \<and> audit_effect req d d' ''workflow'' ident ''update''
              (Some (WorkflowSnap old)) (Some (WorkflowSnap new))"
    by blast
qed

subsection \<open>Sample runs\<close>

lemma response_eqI:
  "res_status (fst x) = n \<Longrightarrow> x = (Response n (res_body (fst x)), snd x)"
  by (cases x; cases "fst x"; simp)

lemma db_generator_eq:
  "post_assets alice generator_body fresh_db
     = (Response 201 (AssetJson (Some generator_asset)), db_generator)"
  by (simp add: db_generator_def post_assets_def sample_defs schema_defs storage_defs Let_def)

lemma db_generator_simps:
  "assets db_generator = [generator_asset]" "rejecting db_generator = {}"
  "length (auditLogs db_generator) = 1"
  "workflows db_generator = []" "workOrders db_generator = []"
  by (simp_all add: db_generator_def post_assets_def sample_defs schema_defs storage_defs Let_def)

lemma db_generator_unreferenced [simp]: "\<not> asset_referenced db_generator ident"
  by (simp add: asset_referenced_def db_generator_simps)

lemma put_generator_status:
  "res_status (fst (put_asset req ''AST-1000'' rename_body db_generator)) = 200"
  by (simp add: put_asset_def db_generator_simps storage_getAsset_def generator_asset_def
        rename_body_def empty_asset_body_def schema_defs storage_updateAsset_def
        createAuditLog_def storage_createAuditLog_def Let_def split: option.splits)

lemma delete_generator_status:
  "res_status (fst (delete_asset req ''AST-1000'' db_generator)) = 204"
  by (simp add: delete_asset_def db_generator_simps storage_getAsset_def generator_asset_def
        storage_deleteAsset_def createAuditLog_def storage_createAuditLog_def Let_def
        split: option.splits)

lemma db_pump_simps:
  "map w_id (workflows db_pump) = [''WFL-1000'']" "rejecting db_pump = {}"
  by (simp_all add: db_pump_def post_workflows_def sample_defs schema_defs storage_defs Let_def)

lemma post_pump_status:
  "res_status (fst (post_workflows alice purchase_body fresh_db)) = 201"
  by (simp add: post_workflows_def sample_defs schema_defs storage_defs Let_def)

lemma put_pump_status:
  "res_status (fst (put_workflow req ''WFL-1000''
      (empty_workflow_body\<lparr>wb_status := Val ''approved''\<rparr>) db_pump)) = 200"
  by (simp add: put_workflow_def db_pump_def post_workflows_def sample_defs schema_defs
        storage_defs Let_def split: option.splits)

text \<open>The five routes and a request without actor, run on the sample stores.\<close>

theorem mutation_audit_record_witness:
  "post_assets alice generator_body fresh_db
     = (Response 201 (AssetJson (Some generator_asset)), db_generator)
   \<and> audit_effect alice fresh_db db_generator ''asset'' ''AST-1000'' ''create''
        None (Some (AssetSnap generator_asset))
   \<and> res_status (fst (put_asset alice ''AST-1000'' rename_body db_generator)) = 200
   \<and> (\<exists>new. audit_effect alice db_generator
          (snd (put_asset alice ''AST-1000'' rename_body db_generator))
          ''asset'' ''AST-1000'' ''update'' (Some (AssetSnap generator_asset)) (Some (AssetSnap new)))
   \<and> res_status (fst (put_asset anonymous ''AST-1000'' rename_body db_generator)) = 200
   \<and> actor anonymous = None
   \<and> auditLogs (snd (put_asset anonymous ''AST-1000'' rename_body db_generator))
        = auditLogs db_generator
   \<and> res_status (fst (delete_asset alice ''AST-1000'' db_generator)) = 204
   \<and> audit_effect alice db_generator (snd (delete_asset alice ''AST-1000'' db_generator))
        ''asset'' ''AST-1000'' ''delete'' (Some (AssetSnap generator_asset)) None
   \<and> res_status (fst (post_workflows alice purchase_body fresh_db)) = 201
   \<and> (\<exists>w. audit_effect alice fresh_db db_pump ''workflow'' (w_id w) ''create''
          None (Some (WorkflowSnap w)))
   \<and> res_status (fst (put_workflow alice ''WFL-1000''
        (empty_workflow_body\<lparr>wb_status := Val ''approved''\<rparr>) db_pump)) = 200
   \<and> (\<exists>old new. audit_effect alice db_pump
          (snd (put_workflow alice ''WFL-1000''
             (empty_workflow_body\<lparr>wb_status := Val ''approved''\<rparr>) db_pump))
          ''workflow'' ''WFL-1000'' ''update'' (Some (WorkflowSnap old)) (Some (WorkflowSnap new)))"
proof -
  note h1 = db_generator_eq
  note h2 = response_eqI [OF put_generator_status [of alice]]
  note h3 = response_eqI [OF put_generator_status [of anonymous]]
  note h4 = response_eqI [OF delete_generator_status [of alice]]
  have h5: "post_workflows alice purchase_body fresh_db
              = (Response 201 (res_body (fst (post_workflows alice purchase_body fresh_db))), db_pump)"
    using response_eqI [OF post_pump_status] by (simp add: db_pump_def)
  note h6 = response_eqI [OF put_pump_status [of alice]]
  have g: "find (\<lambda>a. a_id a = ''AST-1000'') (assets db_generator) = Some generator_asset"
    by (simp add: db_generator_simps generator_asset_def)
  have an: "actor anonymous = None"
    by (simp add: actor_def anonymous_def)
  have c1: "audit_effect alice fresh_db db_generator ''asset'' ''AST-1000'' ''create''
              None (Some (AssetSnap generator_asset))"
    using mutation_audit_record [THEN conjunct1, rule_format, OF h1]
    by (auto simp: generator_asset_def)
  have c2: "\<exists>new. audit_effect alice db_generator
          (snd (put_asset alice ''AST-1000'' rename_body db_generator))
          ''asset'' ''AST-1000'' ''update'' (Some (AssetSnap generator_asset)) (Some (AssetSnap new))"
    using mutation_audit_record [THEN conjunct2, THEN conjunct1, rule_format, OF h2] g
    by auto
  have c3: "auditLogs (snd (put_asset anonymous ''AST-1000'' rename_body db_generator))
              = auditLogs db_generator"
    using mutation_audit_record [THEN conjunct2, THEN conjunct1, rule_format, OF h3] an
    by (auto simp: audit_effect_def)
  have c4: "audit_effect alice db_generator (snd (delete_asset alice ''AST-1000'' db_generator))
        ''asset'' ''AST-1000'' ''delete'' (Some (AssetSnap generator_asset)) None"
    using mutation_audit_record [THEN conjunct2, THEN conjunct2, THEN conjunct1, rule_format, OF h4] g
    by auto
  have c5: "\<exists>w. audit_effect alice fresh_db db_pump ''workflow'' (w_id w) ''create''
          None (Some (WorkflowSnap w))"
    using mutation_audit_record [THEN conjunct2, THEN conjunct2, THEN conjunct2, THEN conjunct1,
            rule_format, OF h5]
    by auto
  have c6: "\<exists>old new. audit_effect alice db_pump
          (snd (put_workflow alice ''WFL-1000''
             (empty_workflow_body\<lparr>wb_status := Val ''approved''\<rparr>) db_pump))
          ''workflow'' ''WFL-1000'' ''update'' (Some (WorkflowSnap old)) (Some (WorkflowSnap new))"
    using mutation_audit_record [THEN conjunct2, THEN conjunct2, THEN conjunct2, THEN conjunct2,
            rule_format, OF h6]
    by auto
  show ?thesis
    using h1 c1 put_generator_status c2 an c3 delete_generator_status c4 post_pump_status c5
      put_pump_status c6
    by simp
qed


subsection \<open>Completed date and status of a workflow\<close>

lemma partial_parse_keys:
  assumes "insertWorkflowSchema_partial_parse b = Inr v"
  shows "z_date (wb_completedDate b) = Inr (wv_completedDate v)
         \<and> enum_key workflow_status_enum (wb_status b) = Inr (wv_status v)"
  using assms
  by (auto simp: insertWorkflowSchema_partial_parse_def split: sum.splits)

lemma parse_keys:
  assumes "insertWorkflowSchema_parse b = Inr v"
  shows "z_date (wb_completedDate b) = Inr (wv_completedDate v)
         \<and> enum_key workflow_status_enum (wb_status b) = Inr (wv_status v)"
  using assms
  by (auto simp: insertWorkflowSchema_parse_def split: sum.splits)

lemma created_workflow_invariant:
  assumes a: "post_workflows req b d = (Response 201 (WorkflowJson (Some w)), d')"
    and k: "wb_status b = Absent" "wb_completedDate b = Absent"
  shows "completedDate_invariant w \<and> w_status w = Some Pending \<and> w \<in> set (workflows d')"
proof -
  from post_workflows_201 [OF a] obtain v where
    p: "insertWorkflowSchema_parse (b\<lparr>wb_requestedBy := Val (the (req_user req))\<rparr>) = Inr v"
    and w: "w \<in> set (workflows d')" "w_status w = column_value (Some Pending) (wv_status v)"
      "w_completedDate w = column_value None (wv_completedDate v)"
    by auto
  from parse_keys [OF p] k have "wv_status v = Absent" "wv_completedDate v = Absent"
    by simp_all
  with w show ?thesis
    by (simp add: completedDate_invariant_def)
qed

lemma updated_workflow_invariant:
  assumes a: "put_workflow req ident b d = (Response 200 (WorkflowJson (Some w)), d')"
    and g: "find (\<lambda>x. w_id x = ident) (workflows d) = Some old"
    and k: "(wb_status b = Absent \<and> wb_completedDate b = Absent \<and> completedDate_invariant old)
           \<or> (wb_status b \<in> {Val ''pending'', Null} \<and> wb_completedDate b = Null)"
  shows "completedDate_invariant w \<and> find (\<lambda>x. w_id x = ident) (workflows d') = Some w"
proof -
  from put_workflow_200 [OF a] g obtain v where
    p: "insertWorkflowSchema_partial_parse b = Inr v"
    and w: "w = workflow_set (req_now req) v old"
      "find (\<lambda>x. w_id x = ident) (workflows d') = Some w"
    by auto
  have s: "w_status w = column_value (w_status old) (wv_status v)"
    and c: "w_completedDate w = column_value (w_completedDate old) (wv_completedDate v)"
    using w(1) by (simp_all add: workflow_set_def)
  note pk = partial_parse_keys [OF p]
  from k have "completedDate_invariant w"
  proof (elim disjE conjE)
    assume "wb_status b = Absent" "wb_completedDate b = Absent" "completedDate_invariant old"
    with pk s c show ?thesis
      by (simp add: completedDate_invariant_def)
  next
    assume st: "wb_status b \<in> {Val ''pending'', Null}" and cd: "wb_completedDate b = Null"
    from st pk have "wv_status v \<in> {Val Pending, Null}"
      by (auto simp: workflow_status_enum_def)
    with pk cd s c show ?thesis
      by (auto simp: completedDate_invariant_def)
  qed
  with w(2) show ?thesis
    by simp
qed

text \<open>
  C6 (as amended). The routes do not couple \<^verbatim>\<open>status\<close> and \<^verbatim>\<open>completedDate\<close>. A workflow
  created without either key is pending with no completed date, so the invariant holds
  for it; a successful update keeps the invariant when its body has neither key, or
  sets the status to pending or null together with a null completed date.
\<close>

theorem workflow_completedDate_invariant:
  "(post_workflows req b d = (Response 201 (WorkflowJson (Some w)), d')
      \<and> wb_status b = Absent \<and> wb_completedDate b = Absent
    \<longrightarrow> completedDate_invariant w \<and> w_status w = Some Pending \<and> w \<in> set (workflows d'))
   \<and> (put_workflow req ident b d = (Response 200 (WorkflowJson (Some w)), d')
        \<and> find (\<lambda>x. w_id x = ident) (workflows d) = Some old
        \<and> ((wb_status b = Absent \<and> wb_completedDate b = Absent \<and> completedDate_invariant old)
           \<or> (wb_status b \<in> {Val ''pending'', Null} \<and> wb_completedDate b = Null))
    \<longrightarrow> completedDate_invariant w \<and> find (\<lambda>x. w_id x = ident) (workflows d') = Some w)"
  using created_workflow_invariant [of req b d w d']
    updated_workflow_invariant [of req ident b d w d' old]
  by blast

lemma db_pump_eq:
  "post_workflows alice purchase_body fresh_db
     = (Response 201 (WorkflowJson (Some pump_workflow)), db_pump)"
  by (simp add: db_pump_def post_workflows_def sample_defs schema_defs storage_defs Let_def)

lemma db_pump_workflows: "workflows db_pump = [pump_workflow]"
  by (simp add: db_pump_def post_workflows_def sample_defs schema_defs storage_defs Let_def)

lemma comment_pump:
  "fst (put_workflow alice ''WFL-1000'' comment_body db_pump)
     = Response 200 (WorkflowJson (Some (pump_workflow\<lparr> w_comments := Some ''checked'' \<rparr>)))"
  by (simp add: put_workflow_def db_pump_workflows db_pump_simps sample_defs schema_defs
        storage_defs Let_def)

lemma reopen_approved:
  "fst (put_workflow alice ''WFL-1000'' reopen_body db_approved)
     = Response 200 (WorkflowJson (Some (approved_workflow\<lparr> w_status := Some Pending,
                                                           w_completedDate := None,
                                                           w_updatedAt := 5 \<rparr>)))"
  by (simp add: put_workflow_def sample_defs schema_defs storage_defs Let_def)

text \<open>
  The body of the client's approve action carries the completed date as a string and
  does not pass the schema.
\<close>

lemma approve_body_refused:
  "put_workflow alice ''WFL-1000'' approve_body db_pump = (Response 400 InvalidData, db_pump)"
  by (simp add: put_workflow_def db_pump_workflows db_pump_simps sample_defs schema_defs
        storage_defs Let_def)

theorem workflow_completedDate_invariant_witness:
  "post_workflows alice purchase_body fresh_db
     = (Response 201 (WorkflowJson (Some pump_workflow)), db_pump)
   \<and> wb_status purchase_body = Absent \<and> wb_completedDate purchase_body = Absent
   \<and> completedDate_invariant pump_workflow
   \<and> fst (put_workflow alice ''WFL-1000'' comment_body db_pump)
        = Response 200 (WorkflowJson (Some (pump_workflow\<lparr> w_comments := Some ''checked'' \<rparr>)))
   \<and> find (\<lambda>x. w_id x = ''WFL-1000'') (workflows db_pump) = Some pump_workflow
   \<and> wb_status comment_body = Absent \<and> wb_completedDate comment_body = Absent
   \<and> completedDate_invariant (pump_workflow\<lparr> w_comments := Some ''checked'' \<rparr>)
   \<and> fst (put_workflow alice ''WFL-1000'' reopen_body db_approved)
        = Response 200 (WorkflowJson (Some (approved_workflow\<lparr> w_status := Some Pending,
                                                              w_completedDate := None,
                                                              w_updatedAt := 5 \<rparr>)))
   \<and> find (\<lambda>x. w_id x = ''WFL-1000'') (workflows db_approved) = Some approved_workflow
   \<and> wb_status reopen_body = Val ''pending'' \<and> wb_completedDate reopen_body = Null
   \<and> completedDate_invariant (approved_workflow\<lparr> w_status := Some Pending,
                                                  w_completedDate := None,
                                                  w_updatedAt := 5 \<rparr>)"
proof -
  have k: "wb_status purchase_body = Absent" "wb_completedDate purchase_body = Absent"
    by (simp_all add: sample_defs)
  have g: "find (\<lambda>x. w_id x = ''WFL-1000'') (workflows db_pump) = Some pump_workflow"
    by (simp add: db_pump_workflows pump_workflow_def)
  have g': "find (\<lambda>x. w_id x = ''WFL-1000'') (workflows db_approved) = Some approved_workflow"
    by (simp add: sample_defs)
  have b: "wb_status comment_body = Absent" "wb_completedDate comment_body = Absent"
    by (simp_all add: sample_defs)
  have b': "wb_status reopen_body = Val ''pending''" "wb_completedDate reopen_body = Null"
    by (simp_all add: sample_defs)
  have u: "put_workflow alice ''WFL-1000'' comment_body db_pump
             = (Response 200 (WorkflowJson (Some (pump_workflow\<lparr> w_comments := Some ''checked'' \<rparr>))),
                snd (put_workflow alice ''WFL-1000'' comment_body db_pump))"
    using comment_pump by (cases "put_workflow alice ''WFL-1000'' comment_body db_pump") simp
  have u': "put_workflow alice ''WFL-1000'' reopen_body db_approved
             = (Response 200 (WorkflowJson (Some (approved_workflow\<lparr> w_status := Some Pending,
                                                                   w_completedDate := None,
                                                                   w_updatedAt := 5 \<rparr>))),
                snd (put_workflow alice ''WFL-1000'' reopen_body db_approved))"
    using reopen_approved by (cases "put_workflow alice ''WFL-1000'' reopen_body db_approved") simp
  have c1: "completedDate_invariant pump_workflow"
    using workflow_completedDate_invariant [THEN conjunct1, rule_format] db_pump_eq k
    by blast
  have c2: "completedDate_invariant (pump_workflow\<lparr> w_comments := Some ''checked'' \<rparr>)"
    using workflow_completedDate_invariant [THEN conjunct2, rule_format,
             where req = alice and ident = "''WFL-1000''" and b = comment_body and d = db_pump
               and old = pump_workflow] u g b c1
    by simp
  have c3: "completedDate_invariant (approved_workflow\<lparr> w_status := Some Pending,
                                                       w_completedDate := None,
                                                       w_updatedAt := 5 \<rparr>)"
    using workflow_completedDate_invariant [THEN conjunct2, rule_format,
             where req = alice and ident = "''WFL-1000''" and b = reopen_body and d = db_approved
               and old = approved_workflow] u' g' b'
    by simp
  show ?thesis
    using db_pump_eq k c1 comment_pump g b c2 reopen_approved g' b' c3 by simp
qed

text \<open>
  The claim as stated fails: after alice creates a purchase workflow in the fresh
  store, an update with \<^verbatim>\<open>{ status: 'approved' }\<close> alone answers 200 and leaves the workflow
  approved with no completed date.
\<close>

theorem approved_without_completedDate:
  "res_status (fst (put_workflow alice ''WFL-1000'' approve_only_body db_pump)) = 200
   \<and> workflows (snd (put_workflow alice ''WFL-1000'' approve_only_body db_pump))
        = [pump_workflow\<lparr> w_status := Some Approved \<rparr>]
   \<and> \<not> completedDate_invariant (pump_workflow\<lparr> w_status := Some Approved \<rparr>)"
  by (simp add: put_workflow_def db_pump_workflows db_pump_simps sample_defs schema_defs
        storage_defs Let_def completedDate_invariant_def)

subsection \<open>A failing audit write\<close>

lemma actor_Some: "actor req = Some sub \<longleftrightarrow> req_user req = Some sub \<and> sub \<noteq> []"
  by (auto simp: actor_def split: option.splits)

lemma parse_required:
  "insertAssetSchema_parse b = Inr v \<Longrightarrow> \<exists>nm cat. av_name v = Val nm \<and> av_category v = Val cat"
  by (auto simp: insertAssetSchema_parse_def split: sum.splits option.splits
           elim!: required.elims)

lemma asset_partial_parse_notnull:
  "insertAssetSchema_partial_parse b = Inr v \<Longrightarrow> av_name v \<noteq> Null \<and> av_category v \<noteq> Null"
  by (auto simp: insertAssetSchema_partial_parse_def split: sum.splits option.splits
           elim!: optional.elims)

lemma createAuditLog_rejected:
  assumes "actor req = Some sub" and "CreateAuditLog \<in> rejecting d"
  shows "createAuditLog etype eid act req old new d = (Inl StoreError, d)"
  using assms by (simp add: actor_Some createAuditLog_def storage_createAuditLog_def)

lemma post_assets_audit_rejected:
  assumes a: "actor req = Some sub" and r: "CreateAuditLog \<in> rejecting d"
    and ok: "CreateAsset \<notin> rejecting d"
    and p: "insertAssetSchema_parse (ab\<lparr>ab_createdBy := Val sub\<rparr>) = Inr v"
    and fresh: "asset_id_default (asset_seq d) \<notin> set (map a_id (assets d))"
  shows "\<exists>asset. a_id asset = asset_id_default (asset_seq d)
           \<and> post_assets req ab d
               = (Response 500 (Message ''Failed to create asset''),
                  d\<lparr>asset_seq := Suc (asset_seq d), assets := assets d @ [asset]\<rparr>)"
proof -
  from parse_required [OF p] obtain nm cat where v: "av_name v = Val nm" "av_category v = Val cat"
    by blast
  define asset where "asset =
     \<lparr> a_id = asset_id_default (asset_seq d), a_name = nm,
       a_description = column_value None (av_description v), a_category = cat,
       a_serialNumber = column_value None (av_serialNumber v),
       a_status = column_value (Some Active) (av_status v),
       a_custodianId = column_value None (av_custodianId v),
       a_location = column_value None (av_location v),
       a_createdBy = column_value None (av_createdBy v),
       a_createdAt = req_now req, a_updatedAt = req_now req \<rparr>"
  let ?d1 = "d\<lparr>asset_seq := Suc (asset_seq d), assets := assets d @ [asset]\<rparr>"
  have c: "storage_createAsset (req_now req) v d = (Inr asset, ?d1)"
    using ok v fresh by (simp add: storage_createAsset_def Let_def asset_def)
  have l: "createAuditLog ''asset'' (a_id asset) ''create'' req None (Some (AssetSnap asset)) ?d1
             = (Inl StoreError, ?d1)"
    using a r by (simp add: createAuditLog_rejected)
  have "post_assets req ab d = (Response 500 (Message ''Failed to create asset''), ?d1)"
    using a p c l by (simp add: post_assets_def actor_Some)
  moreover have "a_id asset = asset_id_default (asset_seq d)"
    by (simp add: asset_def)
  ultimately show ?thesis
    by blast
qed

lemma put_asset_audit_rejected:
  assumes a: "actor req = Some sub" and r: "CreateAuditLog \<in> rejecting d"
    and ok: "GetAsset \<notin> rejecting d" "UpdateAsset \<notin> rejecting d"
    and g: "find (\<lambda>a. a_id a = ident) (assets d) = Some old"
    and p: "insertAssetSchema_partial_parse ab = Inr v"
  shows "put_asset req ident ab d
           = (Response 500 (Message ''Failed to update asset''),
              d\<lparr>assets := map (\<lambda>a. if a_id a = ident then asset_set (req_now req) v a else a)
                              (assets d)\<rparr>)"
proof -
  let ?rows = "map (\<lambda>a. if a_id a = ident then asset_set (req_now req) v a else a) (assets d)"
  have u: "storage_updateAsset (req_now req) ident v d
             = (Inr (Some (asset_set (req_now req) v old)), d\<lparr>assets := ?rows\<rparr>)"
    using ok(2) asset_partial_parse_notnull [OF p] g
    by (simp add: storage_updateAsset_def Let_def find_map_upd)
  have l: "createAuditLog ''asset'' ident ''update'' req (Some (AssetSnap old))
             (map_option AssetSnap (Some (asset_set (req_now req) v old))) (d\<lparr>assets := ?rows\<rparr>)
             = (Inl StoreError, d\<lparr>assets := ?rows\<rparr>)"
    using a r by (simp add: createAuditLog_rejected del: map_option_eq_Some option.map)
  show ?thesis
    using ok(1) g p u l by (simp add: put_asset_def storage_getAsset_def del: option.map)
qed

lemma delete_asset_audit_rejected:
  assumes a: "actor req = Some sub" and r: "CreateAuditLog \<in> rejecting d"
    and ok: "GetAsset \<notin> rejecting d" "DeleteAsset \<notin> rejecting d"
    and g: "find (\<lambda>a. a_id a = ident) (assets d) = Some old"
  shows "delete_asset req ident d
           = (Response 500 (Message ''Failed to delete asset''),
              if asset_referenced d ident then d
              else d\<lparr>assets := filter (\<lambda>a. a_id a \<noteq> ident) (assets d)\<rparr>)"
proof -
  let ?d1 = "d\<lparr>assets := filter (\<lambda>a. a_id a \<noteq> ident) (assets d)\<rparr>"
  have l: "createAuditLog ''asset'' ident ''delete'' req (Some (AssetSnap old)) None ?d1
             = (Inl StoreError, ?d1)"
    using a r by (simp add: createAuditLog_rejected)
  have m: "ident \<in> set (map a_id (assets d))"
    using find_Some_key [OF g] by auto
  show ?thesis
    using ok g l m by (simp add: delete_asset_def storage_getAsset_def storage_deleteAsset_def)
qed

text \<open>
  C7 (as amended). When the entity write of a create, update or delete succeeds and the
  audit write that follows it is rejected, the route answers 500 with its failure
  message; the entity write stays in the store and no audit row is added. (The delete
  of an asset that a workflow or a work order references is refused by the store and
  answered 500 as well, with the store as it was.)
\<close>

theorem audit_failure_reported_as_error:
  assumes "actor req = Some sub" and "CreateAuditLog \<in> rejecting d"
    and "GetAsset \<notin> rejecting d" and "CreateAsset \<notin> rejecting d"
    and "UpdateAsset \<notin> rejecting d" and "DeleteAsset \<notin> rejecting d"
  shows "(insertAssetSchema_parse (ab\<lparr>ab_createdBy := Val sub\<rparr>) = Inr v
            \<and> asset_id_default (asset_seq d) \<notin> set (map a_id (assets d))
          \<longrightarrow> (\<exists>asset. a_id asset = asset_id_default (asset_seq d)
                 \<and> post_assets req ab d
                     = (Response 500 (Message ''Failed to create asset''),
                        d\<lparr>asset_seq := Suc (asset_seq d), assets := assets d @ [asset]\<rparr>)))
       \<and> (find (\<lambda>a. a_id a = ident) (assets d) = Some old
            \<and> insertAssetSchema_partial_parse ab = Inr v'
          \<longrightarrow> put_asset req ident ab d
                = (Response 500 (Message ''Failed to update asset''),
                   d\<lparr>assets := map (\<lambda>a. if a_id a = ident then asset_set (req_now req) v' a else a)
                                   (assets d)\<rparr>))
       \<and> (find (\<lambda>a. a_id a = ident) (assets d) = Some old
          \<longrightarrow> delete_asset req ident d
                = (Response 500 (Message ''Failed to delete asset''),
                   if asset_referenced d ident then d
                   else d\<lparr>assets := filter (\<lambda>a. a_id a \<noteq> ident) (assets d)\<rparr>))"
  using post_assets_audit_rejected [OF assms(1,2,4), of ab v]
    put_asset_audit_rejected [OF assms(1,2,3,5), of ident old ab v']
    delete_asset_audit_rejected [OF assms(1,2,3,6), of ident old]
  by blast


lemma audit_down_simps [simp]:
  "rejecting (audit_down d) = {CreateAuditLog}" "assets (audit_down d) = assets d"
  "asset_seq (audit_down d) = asset_seq d" "auditLogs (audit_down d) = auditLogs d"
  "asset_referenced (audit_down d) ident = asset_referenced d ident"
  by (simp_all add: audit_down_def asset_referenced_def)

theorem audit_failure_reported_as_error_witness:
  "actor alice = Some ''alice''
   \<and> rejecting (audit_down fresh_db) = {CreateAuditLog}
   \<and> rejecting (audit_down db_generator) = {CreateAuditLog}
   \<and> (\<exists>asset. a_id asset = ''AST-1000''
         \<and> post_assets alice generator_body (audit_down fresh_db)
             = (Response 500 (Message ''Failed to create asset''),
                (audit_down fresh_db)\<lparr>asset_seq := 1001, assets := [asset]\<rparr>))
   \<and> find (\<lambda>a. a_id a = ''AST-1000'') (assets (audit_down db_generator)) = Some generator_asset
   \<and> fst (put_asset alice ''AST-1000'' rename_body (audit_down db_generator))
       = Response 500 (Message ''Failed to update asset'')
   \<and> map a_name (assets (snd (put_asset alice ''AST-1000'' rename_body (audit_down db_generator))))
       = [''Generator 2'']
   \<and> delete_asset alice ''AST-1000'' (audit_down db_generator)
       = (Response 500 (Message ''Failed to delete asset''), (audit_down db_generator)\<lparr>assets := []\<rparr>)"
proof -
  let ?v = "\<lparr> av_name = Val ''Generator'', av_description = Absent, av_category = Val Equipment,
              av_serialNumber = Absent, av_status = Absent, av_custodianId = Absent,
              av_location = Absent, av_createdBy = Val ''alice'' \<rparr>"
  let ?v' = "\<lparr> av_name = Val ''Generator 2'', av_description = Absent, av_category = Absent,
              av_serialNumber = Absent, av_status = Absent, av_custodianId = Absent,
              av_location = Absent, av_createdBy = Absent \<rparr>"
  have a: "actor alice = Some ''alice''"
    by (simp add: actor_def alice_def)
  have r: "CreateAuditLog \<in> rejecting (audit_down d)" "GetAsset \<notin> rejecting (audit_down d)"
    "CreateAsset \<notin> rejecting (audit_down d)" "UpdateAsset \<notin> rejecting (audit_down d)"
    "DeleteAsset \<notin> rejecting (audit_down d)" for d
    by simp_all
  have p: "insertAssetSchema_parse (generator_body\<lparr>ab_createdBy := Val ''alice''\<rparr>) = Inr ?v"
    by (simp add: sample_defs schema_defs)
  have p': "insertAssetSchema_partial_parse rename_body = Inr ?v'"
    by (simp add: sample_defs schema_defs)
  have f: "asset_id_default (asset_seq (audit_down fresh_db)) = ''AST-1000''"
    "assets (audit_down fresh_db) = []"
    by (simp_all add: fresh_db_def asset_id_default_def to_char_FM0000_def digit_char_def)
  have g: "find (\<lambda>a. a_id a = ''AST-1000'') (assets (audit_down db_generator)) = Some generator_asset"
    by (simp add: db_generator_simps generator_asset_def)
  note t1 = audit_failure_reported_as_error [where d = "audit_down fresh_db"
               and ab = generator_body and v = ?v, OF a r, THEN conjunct1, rule_format]
  note t2 = audit_failure_reported_as_error [where d = "audit_down db_generator"
               and ident = "''AST-1000''" and old = generator_asset and ab = rename_body
               and v' = ?v', OF a r, THEN conjunct2]
  have c1: "\<exists>asset. a_id asset = ''AST-1000''
         \<and> post_assets alice generator_body (audit_down fresh_db)
             = (Response 500 (Message ''Failed to create asset''),
                (audit_down fresh_db)\<lparr>asset_seq := 1001, assets := [asset]\<rparr>)"
    using t1 p f by (simp add: fresh_db_def)
  have c2: "put_asset alice ''AST-1000'' rename_body (audit_down db_generator)
              = (Response 500 (Message ''Failed to update asset''),
                 (audit_down db_generator)\<lparr>assets :=
                    [asset_set (req_now alice) ?v' generator_asset]\<rparr>)"
    using t2 [THEN conjunct1, rule_format] g p'
    by (simp add: db_generator_simps generator_asset_def)
  have c3: "delete_asset alice ''AST-1000'' (audit_down db_generator)
       = (Response 500 (Message ''Failed to delete asset''), (audit_down db_generator)\<lparr>assets := []\<rparr>)"
    using t2 [THEN conjunct2, rule_format] g
    by (simp add: db_generator_simps generator_asset_def)
  show ?thesis
    using a c1 g c2 c3 by (simp add: asset_set_def)
qed

text \<open>
  The claim as stated fails: with the audit write rejected, deleting the generator
  removes the asset from the store and the route answers 500.
\<close>

theorem deleted_but_reported_failed:
  "assets (audit_down db_generator) = [generator_asset]
   \<and> res_status (fst (delete_asset alice ''AST-1000'' (audit_down db_generator))) = 500
   \<and> assets (snd (delete_asset alice ''AST-1000'' (audit_down db_generator))) = []"
  by (simp add: delete_asset_def db_generator_simps storage_getAsset_def generator_asset_def
        storage_deleteAsset_def createAuditLog_def storage_createAuditLog_def alice_def)

subsection \<open>Updating an unknown identifier\<close>

text \<open>
  C8. An update of an identifier that is in no row leaves the store as it is (no write,
  no audit row) and, the lookup answering, the route responds 404.
\<close>

theorem update_unknown_id_not_found:
  "(ident \<notin> set (map a_id (assets d)) \<longrightarrow>
      snd (put_asset req ident ab d) = d
      \<and> (GetAsset \<notin> rejecting d \<longrightarrow>
           put_asset req ident ab d = (Response 404 (Message ''Asset not found''), d)))
   \<and> (ident \<notin> set (map w_id (workflows d)) \<longrightarrow>
      snd (put_workflow req ident wb d) = d
      \<and> (GetWorkflow \<notin> rejecting d \<longrightarrow>
           put_workflow req ident wb d = (Response 404 (Message ''Workflow not found''), d)))"
proof (intro conjI impI)
  assume "ident \<notin> set (map a_id (assets d))"
  then have n: "find (\<lambda>a. a_id a = ident) (assets d) = None"
    by (simp add: find_None_key)
  from n show "snd (put_asset req ident ab d) = d"
    by (simp add: put_asset_def storage_getAsset_def)
  assume "GetAsset \<notin> rejecting d"
  with n show "put_asset req ident ab d = (Response 404 (Message ''Asset not found''), d)"
    by (simp add: put_asset_def storage_getAsset_def)
next
  assume "ident \<notin> set (map w_id (workflows d))"
  then have n: "find (\<lambda>w. w_id w = ident) (workflows d) = None"
    by (simp add: find_None_key)
  from n show "snd (put_workflow req ident wb d) = d"
    by (simp add: put_workflow_def storage_getWorkflow_def)
  assume "GetWorkflow \<notin> rejecting d"
  with n show "put_workflow req ident wb d = (Response 404 (Message ''Workflow not found''), d)"
    by (simp add: put_workflow_def storage_getWorkflow_def)
qed

theorem update_unknown_id_not_found_witness:
  "''AST-2000'' \<notin> set (map a_id (assets db_generator))
   \<and> GetAsset \<notin> rejecting db_generator
   \<and> put_asset alice ''AST-2000'' rename_body db_generator
       = (Response 404 (Message ''Asset not found''), db_generator)
   \<and> ''WFL-2000'' \<notin> set (map w_id (workflows db_pump))
   \<and> GetWorkflow \<notin> rejecting db_pump
   \<and> put_workflow alice ''WFL-2000'' approve_body db_pump
       = (Response 404 (Message ''Workflow not found''), db_pump)"
proof -
  have h: "''AST-2000'' \<notin> set (map a_id (assets db_generator))"
    "GetAsset \<notin> rejecting db_generator"
    "''WFL-2000'' \<notin> set (map w_id (workflows db_pump))"
    "GetWorkflow \<notin> rejecting db_pump"
    by (simp_all add: db_generator_simps generator_asset_def db_pump_simps)
  from h update_unknown_id_not_found [of "''AST-2000''" db_generator alice rename_body]
    update_unknown_id_not_found [of "''WFL-2000''" db_pump alice _ approve_body]
  show ?thesis
    by blast
qed

subsection \<open>Setting a location\<close>

lemma locationSchema_parse_Inr:
  "locationSchema_parse b = Inr (lng, lat) \<Longrightarrow>
     lb_longitude b = Val lng \<and> lb_latitude b = Val lat
     \<and> - 180 \<le> lng \<and> lng \<le> 180 \<and> - 90 \<le> lat \<and> lat \<le> 90"
  by (cases "lb_longitude b"; cases "lb_latitude b")
     (auto simp: locationSchema_parse_def split: if_splits)

lemma storage_updateAssetLocation_Inr:
  assumes "storage_updateAssetLocation now ident lng lat d = (Inr upd, d1)"
    and "find (\<lambda>a. a_id a = ident) (assets d) = Some old"
  shows "upd = Some (old\<lparr> a_location := Some \<lparr> longitude = lng, latitude = lat \<rparr>,
                          a_updatedAt := now \<rparr>)
         \<and> find (\<lambda>a. a_id a = ident) (assets d1) = upd
         \<and> auditLogs d1 = auditLogs d"
  using assms
  by (auto simp: storage_updateAssetLocation_def Let_def pointToGeometry_def
                 find_map_upd [where f = "\<lambda>a. a\<lparr> a_location := p, a_updatedAt := t \<rparr>" for p t]
           split: if_splits)

lemma put_asset_location_200:
  assumes "put_asset_location req ident b d = (Response 200 bd, d')"
  shows "\<exists>existing lng lat uid.
           find (\<lambda>a. a_id a = ident) (assets d) = Some existing
           \<and> lb_longitude b = Val lng \<and> lb_latitude b = Val lat
           \<and> req_user req = Some uid
           \<and> (a_custodianId existing = Some uid \<or> a_createdBy existing = Some uid)
           \<and> bd = AssetJson (Some (existing\<lparr> a_location := Some \<lparr> longitude = lng, latitude = lat \<rparr>,
                                               a_updatedAt := req_now req \<rparr>))
           \<and> find (\<lambda>a. a_id a = ident) (assets d')
               = Some (existing\<lparr> a_location := Some \<lparr> longitude = lng, latitude = lat \<rparr>,
                                 a_updatedAt := req_now req \<rparr>)
           \<and> audit_effect req d d' ''asset'' ident ''location_update''
                (Some (LocationSnap (a_location existing)))
                (Some (LocationSnap (Some \<lparr> longitude = lng, latitude = lat \<rparr>)))"
proof -
  from assms obtain lng lat existing uid upd d1 u where
    p: "locationSchema_parse b = Inr (lng, lat)"
    and g: "find (\<lambda>a. a_id a = ident) (assets d) = Some existing"
    and s: "req_user req = Some uid"
    and z: "a_custodianId existing = Some uid \<or> a_createdBy existing = Some uid"
    and c: "storage_updateAssetLocation (req_now req) ident lng lat d = (Inr upd, d1)"
    and a: "createAuditLog ''asset'' ident ''location_update'' req
              (Some (LocationSnap (a_location existing)))
              (Some (LocationSnap (Some \<lparr> longitude = lng, latitude = lat \<rparr>))) d1 = (Inr u, d')"
    and bd: "bd = AssetJson upd"
    by (auto simp: put_asset_location_def storage_getAsset_def
             split: option.splits sum.splits prod.splits if_splits)
  from locationSchema_parse_Inr [OF p] storage_updateAssetLocation_Inr [OF c g]
    createAuditLog_Inr [OF a] g s z bd
  show ?thesis
    by (auto simp: audit_effect_def split: option.splits)
qed

text \<open>
  C9. A successful location update by an actor (the asset's custodian or creator) adds
  exactly one audit row of action \<^verbatim>\<open>location_update\<close> with the previous location (or
  null) as old snapshot and the new point as new snapshot, and returns the asset as
  stored, its location being the new point and its other columns, the update time
  apart, unchanged.
\<close>

theorem location_update_audit_record:
  assumes "put_asset_location req ident b d = (Response 200 bd, d')"
    and "actor req = Some sub"
  shows "\<exists>existing lng lat row.
           find (\<lambda>a. a_id a = ident) (assets d) = Some existing
           \<and> lb_longitude b = Val lng \<and> lb_latitude b = Val lat
           \<and> (a_custodianId existing = Some sub \<or> a_createdBy existing = Some sub)
           \<and> auditLogs d' = auditLogs d @ [row]
           \<and> records row ''asset'' ident ''location_update'' sub
                (Some (LocationSnap (a_location existing)))
                (Some (LocationSnap (Some \<lparr> longitude = lng, latitude = lat \<rparr>)))
           \<and> bd = AssetJson (Some (existing\<lparr> a_location := Some \<lparr> longitude = lng, latitude = lat \<rparr>,
                                               a_updatedAt := req_now req \<rparr>))
           \<and> find (\<lambda>a. a_id a = ident) (assets d')
               = Some (existing\<lparr> a_location := Some \<lparr> longitude = lng, latitude = lat \<rparr>,
                                 a_updatedAt := req_now req \<rparr>)"
  using put_asset_location_200 [OF assms(1)] assms(2)
  by (auto simp: audit_effect_def actor_Some)

lemma locate_generator:
  "res_status (fst (put_asset_location alice ''AST-1000'' location_body_nyc db_generator)) = 200"
  by (simp add: put_asset_location_def location_body_nyc_def locationSchema_parse_def
        db_generator_simps storage_getAsset_def generator_asset_def alice_def
        storage_updateAssetLocation_def createAuditLog_def storage_createAuditLog_def Let_def)

theorem location_update_audit_record_witness:
  "res_status (fst (put_asset_location alice ''AST-1000'' location_body_nyc db_generator)) = 200
   \<and> actor alice = Some ''alice''
   \<and> (\<exists>row. auditLogs (snd (put_asset_location alice ''AST-1000'' location_body_nyc db_generator))
               = auditLogs db_generator @ [row]
          \<and> records row ''asset'' ''AST-1000'' ''location_update'' ''alice''
               (Some (LocationSnap None))
               (Some (LocationSnap (Some \<lparr> longitude = - 74, latitude = 41 \<rparr>))))
   \<and> res_body (fst (put_asset_location alice ''AST-1000'' location_body_nyc db_generator))
       = AssetJson (Some (generator_asset\<lparr>
           a_location := Some \<lparr> longitude = - 74, latitude = 41 \<rparr> \<rparr>))"
proof -
  have a: "actor alice = Some ''alice''"
    by (simp add: actor_def alice_def)
  have g: "find (\<lambda>a. a_id a = ''AST-1000'') (assets db_generator) = Some generator_asset"
    by (simp add: db_generator_simps generator_asset_def)
  have l: "lb_longitude location_body_nyc = Val (- 74)" "lb_latitude location_body_nyc = Val 41"
    by (simp_all add: location_body_nyc_def)
  have n: "a_location generator_asset = None" "a_updatedAt generator_asset = req_now alice"
    by (simp_all add: generator_asset_def alice_def)
  from location_update_audit_record [OF response_eqI [OF locate_generator] a] g l n
  show ?thesis
    using locate_generator a by auto
qed

subsection \<open>The proximity query\<close>

lemma not_in_range_iff:
  "\<not> isNaN v \<Longrightarrow> \<not> in_range lo hi v \<longleftrightarrow> js_less v (Fin lo) \<or> js_greater v (Fin hi)"
  by (cases v) (auto simp: in_range_def js_greater_def)

lemma not_radius_ok_iff:
  "\<not> isNaN v \<Longrightarrow> \<not> radius_ok v \<longleftrightarrow> js_less_eq v (Fin 0) \<or> js_greater v (Fin 100000)"
  by (cases v) (auto simp: radius_ok_def js_greater_def)

lemma get_spatial_assets_numbers:
  assumes "q_lng q = Some l" "q_lat q = Some a" "q_radius q = Some r"
    and "l \<noteq> []" "a \<noteq> []" "r \<noteq> []"
    and "\<not> isNaN (parseFloat l)" "\<not> isNaN (parseFloat a)" "\<not> isNaN (parseFloat r)"
  shows "get_spatial_assets parseFloat dw sd q d =
     (if \<not> in_range (- 180) 180 (parseFloat l)
      then (Response 400 (Message ''Longitude must be between -180 and 180''), d)
      else if \<not> in_range (- 90) 90 (parseFloat a)
      then (Response 400 (Message ''Latitude must be between -90 and 90''), d)
      else if \<not> radius_ok (parseFloat r)
      then (Response 400 (Message ''Radius must be between 0 and 100,000 meters''), d)
      else (case (parseFloat l, parseFloat a, parseFloat r) of
              (Fin lng, Fin lat, Fin rm) \<Rightarrow>
                (case storage_getAssetsNearLocation dw sd lng lat rm d of
                   (Inl e, d1) \<Rightarrow> (Response 500 (Message ''Failed to find nearby assets''), d1)
                 | (Inr nearbyAssets, d1) \<Rightarrow> (Response 200 (NearbyAssets nearbyAssets), d1))
            | _ \<Rightarrow> (Response 500 (Message ''Failed to find nearby assets''), d)))"
  using assms
  by (simp add: get_spatial_assets_def Let_def not_in_range_iff [symmetric]
        not_radius_ok_iff [symmetric])

text \<open>
  C3. For a query whose three keys are present and parse to numbers: a longitude
  outside \<open>[-180, 180]\<close> is answered 400 with the longitude message, else a latitude
  outside \<open>[-90, 90]\<close> with the latitude message, else a radius outside \<open>(0, 100000]\<close>
  with the radius message, in each case whatever the store is and leaving it as it was;
  values inside the three ranges pass, and the answer is that of the store's query.
\<close>

theorem near_validation:
  assumes "q_lng q = Some l" and "q_lat q = Some a" and "q_radius q = Some r"
    and "l \<noteq> []" and "a \<noteq> []" and "r \<noteq> []"
    and "\<not> isNaN (parseFloat l)" and "\<not> isNaN (parseFloat a)" and "\<not> isNaN (parseFloat r)"
  shows "(\<not> in_range (- 180) 180 (parseFloat l) \<longrightarrow>
            get_spatial_assets parseFloat dw sd q d
              = (Response 400 (Message ''Longitude must be between -180 and 180''), d))
       \<and> (in_range (- 180) 180 (parseFloat l) \<and> \<not> in_range (- 90) 90 (parseFloat a) \<longrightarrow>
            get_spatial_assets parseFloat dw sd q d
              = (Response 400 (Message ''Latitude must be between -90 and 90''), d))
       \<and> (in_range (- 180) 180 (parseFloat l) \<and> in_range (- 90) 90 (parseFloat a)
            \<and> \<not> radius_ok (parseFloat r) \<longrightarrow>
            get_spatial_assets parseFloat dw sd q d
              = (Response 400 (Message ''Radius must be between 0 and 100,000 meters''), d))
       \<and> (parseFloat l = Fin lng \<and> parseFloat a = Fin lat \<and> parseFloat r = Fin rm
            \<and> - 180 \<le> lng \<and> lng \<le> 180 \<and> - 90 \<le> lat \<and> lat \<le> 90 \<and> 0 < rm \<and> rm \<le> 100000 \<longrightarrow>
            get_spatial_assets parseFloat dw sd q d
              = (case storage_getAssetsNearLocation dw sd lng lat rm d of
                   (Inl e, d1) \<Rightarrow> (Response 500 (Message ''Failed to find nearby assets''), d1)
                 | (Inr nearbyAssets, d1) \<Rightarrow> (Response 200 (NearbyAssets nearbyAssets), d1)))"
  using get_spatial_assets_numbers [OF assms, of dw sd d]
  by (auto simp: in_range_def radius_ok_def)

text \<open>
  The store of the sample runs holds no located asset, so neither function of the store
  is applied; constant functions fill their places.
\<close>

theorem near_validation_witness:
  "get_spatial_assets sample_parseFloat (\<lambda>p q r. False) (\<lambda>p q. 0)
       (spatial ''200'' ''0'' ''100'') db_generator
     = (Response 400 (Message ''Longitude must be between -180 and 180''), db_generator)
   \<and> get_spatial_assets sample_parseFloat (\<lambda>p q r. False) (\<lambda>p q. 0)
       (spatial ''0'' ''100'' ''100'') db_generator
     = (Response 400 (Message ''Latitude must be between -90 and 90''), db_generator)
   \<and> get_spatial_assets sample_parseFloat (\<lambda>p q r. False) (\<lambda>p q. 0)
       (spatial ''0'' ''0'' ''200000'') db_generator
     = (Response 400 (Message ''Radius must be between 0 and 100,000 meters''), db_generator)
   \<and> get_spatial_assets sample_parseFloat (\<lambda>p q r. False) (\<lambda>p q. 0)
       (spatial ''0'' ''0'' ''100'') db_generator
     = (Response 200 (NearbyAssets []), db_generator)"
proof -
  have q: "q_lng (spatial l a r) = Some l" "q_lat (spatial l a r) = Some a"
    "q_radius (spatial l a r) = Some r" for l a r
    by (simp_all add: spatial_def)
  have n: "\<not> isNaN (sample_parseFloat ''0'')" "\<not> isNaN (sample_parseFloat ''100'')"
    "\<not> isNaN (sample_parseFloat ''200'')" "\<not> isNaN (sample_parseFloat ''200000'')"
    by (simp_all add: sample_parseFloat_def)
  have e: "''0'' \<noteq> []" "''100'' \<noteq> []" "''200'' \<noteq> []" "''200000'' \<noteq> []"
    by simp_all
  have v: "sample_parseFloat ''0'' = Fin 0" "sample_parseFloat ''100'' = Fin 100"
    "sample_parseFloat ''200'' = Fin 200" "sample_parseFloat ''200000'' = Fin 200000"
    by (simp_all add: sample_parseFloat_def)
  have c1: "get_spatial_assets sample_parseFloat (\<lambda>p q r. False) (\<lambda>p q. 0)
       (spatial ''200'' ''0'' ''100'') db_generator
     = (Response 400 (Message ''Longitude must be between -180 and 180''), db_generator)"
    using near_validation [where parseFloat = sample_parseFloat and d = db_generator,
            OF q e(3) e(1) e(2) n(3) n(1) n(2), THEN conjunct1]
    by (simp add: in_range_def v)
  have c2: "get_spatial_assets sample_parseFloat (\<lambda>p q r. False) (\<lambda>p q. 0)
       (spatial ''0'' ''100'' ''100'') db_generator
     = (Response 400 (Message ''Latitude must be between -90 and 90''), db_generator)"
    using near_validation [where parseFloat = sample_parseFloat and d = db_generator,
            OF q e(1) e(2) e(2) n(1) n(2) n(2), THEN conjunct2, THEN conjunct1]
    by (simp add: in_range_def v)
  have c3: "get_spatial_assets sample_parseFloat (\<lambda>p q r. False) (\<lambda>p q. 0)
       (spatial ''0'' ''0'' ''200000'') db_generator
     = (Response 400 (Message ''Radius must be between 0 and 100,000 meters''), db_generator)"
    using near_validation [where parseFloat = sample_parseFloat and d = db_generator,
            OF q e(1) e(1) e(4) n(1) n(1) n(4),
            THEN conjunct2, THEN conjunct2, THEN conjunct1]
    by (simp add: in_range_def radius_ok_def v)
  have c4: "get_spatial_assets sample_parseFloat (\<lambda>p q r. False) (\<lambda>p q. 0)
       (spatial ''0'' ''0'' ''100'') db_generator
     = (Response 200 (NearbyAssets []), db_generator)"
    using near_validation [where parseFloat = sample_parseFloat and d = db_generator
            and dw = "\<lambda>p q r. False" and sd = "\<lambda>p q. 0" and lng = 0 and lat = 0 and rm = 100,
            OF q e(1) e(1) e(2) n(1) n(1) n(2),
            THEN conjunct2, THEN conjunct2, THEN conjunct2]
    by (simp add: v storage_getAssetsNearLocation_def db_generator_simps near_row_def
          generator_asset_def)
  show ?thesis
    using c1 c2 c3 c4 by simp
qed

lemma set_map_filter_iff:
  "y \<in> set (List.map_filter f xs) \<longleftrightarrow> (\<exists>x \<in> set xs. f x = Some y)"
  by (induction xs) (auto split: option.splits)

lemma near_row_Some:
  "near_row dw sd lng lat rm a = Some row \<longleftrightarrow>
     (\<exists>p. a_location a = Some p \<and> dw p \<lparr> longitude = lng, latitude = lat \<rparr> rm
          \<and> row = (a, sd p \<lparr> longitude = lng, latitude = lat \<rparr>))"
  by (auto simp: near_row_def withinDistance_def pointToGeometry_def split: option.splits)

text \<open>
  What the query's text fixes, whatever the two functions of the store are: the rows are
  exactly the located assets that the store's test selects, each with the store's
  distance, in non-decreasing order of it.
\<close>

lemma near_rows:
  assumes "GetAssetsNearLocation \<notin> rejecting d"
  shows "\<exists>rows. storage_getAssetsNearLocation dw sd lng lat rm d = (Inr rows, d)
           \<and> set rows = {(x, sd p \<lparr> longitude = lng, latitude = lat \<rparr>) | x p.
                           x \<in> set (assets d) \<and> a_location x = Some p
                           \<and> dw p \<lparr> longitude = lng, latitude = lat \<rparr> rm}
           \<and> sorted (map snd rows)"
proof -
  let ?rows = "sort_key snd (List.map_filter (near_row dw sd lng lat rm) (assets d))"
  have "storage_getAssetsNearLocation dw sd lng lat rm d = (Inr ?rows, d)"
    using assms by (simp add: storage_getAssetsNearLocation_def)
  moreover have "set ?rows = {(x, sd p \<lparr> longitude = lng, latitude = lat \<rparr>) | x p.
                           x \<in> set (assets d) \<and> a_location x = Some p
                           \<and> dw p \<lparr> longitude = lng, latitude = lat \<rparr> rm}"
    by (fastforce simp: set_map_filter_iff near_row_Some)
  moreover have "sorted (map snd ?rows)"
    by (rule sorted_sort_key)
  ultimately show ?thesis
    by blast
qed

subsection \<open>Paging\<close>

lemma get_assets_params:
  "get_assets parseInt like q d =
     (case storage_getAssets like
             (or_default (parse_query_int parseInt (q_limit q)) 20)
             (or_default (parse_query_int parseInt (q_offset q)) 0) (q_search q) d of
        (Inl e, d1) \<Rightarrow> (Response 500 (Message ''Failed to fetch assets''), d1)
      | (Inr (assetsList, totalCount), d1) \<Rightarrow>
          (Response 200 (AssetsPage assetsList totalCount), d1))"
  by (simp add: get_assets_def Let_def)

lemma get_audit_logs_params:
  "get_audit_logs parseInt q d =
     (case storage_getAuditLogs
             (or_default (parse_query_int parseInt (q_limit q)) 50)
             (or_default (parse_query_int parseInt (q_offset q)) 0) d of
        (Inl e, d1) \<Rightarrow> (Response 500 (Message ''Failed to fetch audit logs''), d1)
      | (Inr (logs, totalCount), d1) \<Rightarrow> (Response 200 (AuditLogsPage logs totalCount), d1))"
  by (simp add: get_audit_logs_def Let_def)

lemma or_default_falsy: "n = None \<or> n = Some 0 \<Longrightarrow> or_default n d = d"
  by auto

text \<open>
  C10. A request whose \<^verbatim>\<open>limit\<close> is missing, not a number or 0 is answered as the request
  with the default limit written out (20 for assets, 50 for audit logs), and one whose
  \<^verbatim>\<open>offset\<close> is missing or not a number as the request with offset 0. With such a limit
  and offset the page holds the first rows of the listing, up to the default size, so
  it is empty only when nothing is listed.
\<close>

theorem list_query_defaults:
  assumes "q_search q' = q_search q"
  shows "(parse_query_int parseInt (q_limit q) \<in> {None, Some 0}
            \<and> parse_query_int parseInt (q_limit q') = Some 20
            \<and> parse_query_int parseInt (q_offset q') = parse_query_int parseInt (q_offset q)
          \<longrightarrow> get_assets parseInt like q d = get_assets parseInt like q' d)
       \<and> (parse_query_int parseInt (q_limit q) \<in> {None, Some 0}
            \<and> parse_query_int parseInt (q_limit q') = Some 50
            \<and> parse_query_int parseInt (q_offset q') = parse_query_int parseInt (q_offset q)
          \<longrightarrow> get_audit_logs parseInt q d = get_audit_logs parseInt q' d)
       \<and> (parse_query_int parseInt (q_offset q) = None
            \<and> parse_query_int parseInt (q_offset q') = Some 0
            \<and> parse_query_int parseInt (q_limit q') = parse_query_int parseInt (q_limit q)
          \<longrightarrow> get_assets parseInt like q d = get_assets parseInt like q' d
              \<and> get_audit_logs parseInt q d = get_audit_logs parseInt q' d)
       \<and> (parse_query_int parseInt (q_limit q) \<in> {None, Some 0}
            \<and> parse_query_int parseInt (q_offset q) \<in> {None, Some 0}
            \<and> q_search q = None \<and> GetAssets \<notin> rejecting d
          \<longrightarrow> (\<exists>page. get_assets parseInt like q d
                          = (Response 200 (AssetsPage page (length (assets d))), d)
                 \<and> length page = min 20 (length (assets d))
                 \<and> set page \<subseteq> set (assets d)))
       \<and> (parse_query_int parseInt (q_limit q) \<in> {None, Some 0}
            \<and> parse_query_int parseInt (q_offset q) \<in> {None, Some 0}
            \<and> GetAuditLogs \<notin> rejecting d
          \<longrightarrow> (\<exists>page. get_audit_logs parseInt q d
                          = (Response 200 (AuditLogsPage page (length (auditLogs d))), d)
                 \<and> length page = min 50 (length (auditLogs d))
                 \<and> set page \<subseteq> set (auditLogs d)))"
proof (intro conjI impI)
  assume "parse_query_int parseInt (q_limit q) \<in> {None, Some 0}
            \<and> parse_query_int parseInt (q_limit q') = Some 20
            \<and> parse_query_int parseInt (q_offset q') = parse_query_int parseInt (q_offset q)"
  with assms show "get_assets parseInt like q d = get_assets parseInt like q' d"
    by (auto simp: get_assets_params)
next
  assume "parse_query_int parseInt (q_limit q) \<in> {None, Some 0}
            \<and> parse_query_int parseInt (q_limit q') = Some 50
            \<and> parse_query_int parseInt (q_offset q') = parse_query_int parseInt (q_offset q)"
  then show "get_audit_logs parseInt q d = get_audit_logs parseInt q' d"
    by (auto simp: get_audit_logs_params)
next
  assume a: "parse_query_int parseInt (q_offset q) = None
            \<and> parse_query_int parseInt (q_offset q') = Some 0
            \<and> parse_query_int parseInt (q_limit q') = parse_query_int parseInt (q_limit q)"
  with assms show "get_assets parseInt like q d = get_assets parseInt like q' d"
    by (auto simp: get_assets_params)
  from a show "get_audit_logs parseInt q d = get_audit_logs parseInt q' d"
    by (auto simp: get_audit_logs_params)
next
  assume a: "parse_query_int parseInt (q_limit q) \<in> {None, Some 0}
            \<and> parse_query_int parseInt (q_offset q) \<in> {None, Some 0}
            \<and> q_search q = None \<and> GetAssets \<notin> rejecting d"
  let ?page = "take 20 (rev (sort_key a_createdAt (assets d)))"
  have l: "or_default (parse_query_int parseInt (q_limit q)) 20 = 20"
    "or_default (parse_query_int parseInt (q_offset q)) 0 = 0"
    using a by auto
  have "get_assets parseInt like q d = (Response 200 (AssetsPage ?page (length (assets d))), d)"
    using a by (simp add: get_assets_params l storage_getAssets_def Let_def bigint_range_def page_def)
  moreover have "length ?page = min 20 (length (assets d))"
    by simp
  moreover have "set ?page \<subseteq> set (assets d)"
    using set_take_subset [of 20 "rev (sort_key a_createdAt (assets d))"] by simp
  ultimately show "\<exists>page. get_assets parseInt like q d
                          = (Response 200 (AssetsPage page (length (assets d))), d)
                 \<and> length page = min 20 (length (assets d))
                 \<and> set page \<subseteq> set (assets d)"
    by blast
next
  assume a: "parse_query_int parseInt (q_limit q) \<in> {None, Some 0}
            \<and> parse_query_int parseInt (q_offset q) \<in> {None, Some 0}
            \<and> GetAuditLogs \<notin> rejecting d"
  let ?page = "take 50 (rev (sort_key al_timestamp (auditLogs d)))"
  have l: "or_default (parse_query_int parseInt (q_limit q)) 50 = 50"
    "or_default (parse_query_int parseInt (q_offset q)) 0 = 0"
    using a by auto
  have "get_audit_logs parseInt q d
          = (Response 200 (AuditLogsPage ?page (length (auditLogs d))), d)"
    using a by (simp add: get_audit_logs_params l storage_getAuditLogs_def bigint_range_def page_def)
  moreover have "length ?page = min 50 (length (auditLogs d))"
    by simp
  moreover have "set ?page \<subseteq> set (auditLogs d)"
    using set_take_subset [of 50 "rev (sort_key al_timestamp (auditLogs d))"] by simp
  ultimately show "\<exists>page. get_audit_logs parseInt q d
                          = (Response 200 (AuditLogsPage page (length (auditLogs d))), d)
                 \<and> length page = min 50 (length (auditLogs d))
                 \<and> set page \<subseteq> set (auditLogs d)"
    by blast
qed


theorem list_query_defaults_witness:
  "get_assets sample_parseInt sample_like (listing (Some ''0'') None) db_three
     = get_assets sample_parseInt sample_like (listing (Some ''20'') None) db_three
   \<and> get_audit_logs sample_parseInt (listing (Some ''abc'') None) db_generator
     = get_audit_logs sample_parseInt (listing (Some ''50'') None) db_generator
   \<and> get_assets sample_parseInt sample_like (listing (Some ''20'') (Some ''x'')) db_three
     = get_assets sample_parseInt sample_like (listing (Some ''20'') (Some ''0'')) db_three
   \<and> (\<exists>page. get_assets sample_parseInt sample_like (listing (Some ''0'') None) db_three
                = (Response 200 (AssetsPage page 3), db_three)
          \<and> length page = 3)
   \<and> (\<exists>page. get_audit_logs sample_parseInt (listing None None) db_generator
                = (Response 200 (AuditLogsPage page 1), db_generator)
          \<and> length page = 1)"
proof -
  have s: "q_search (listing l' o') = q_search (listing l off)" for l off l' o'
    by (simp add: listing_def)
  have v: "sample_parseInt ''0'' = Some 0" "sample_parseInt ''20'' = Some 20"
    "sample_parseInt ''50'' = Some 50" "sample_parseInt ''abc'' = None"
    "sample_parseInt ''x'' = None"
    by (simp_all add: sample_parseInt_def)
  have k: "q_limit (listing l off) = l" "q_offset (listing l off) = off"
    "q_search (listing l off) = None" for l off
    by (simp_all add: listing_def)
  have d3: "length (assets db_three) = 3" "GetAssets \<notin> rejecting db_three"
    by (simp_all add: db_three_def fresh_db_def)
  have dg: "length (auditLogs db_generator) = 1" "GetAuditLogs \<notin> rejecting db_generator"
    by (simp_all add: db_generator_simps)
  have c1: "get_assets sample_parseInt sample_like (listing (Some ''0'') None) db_three
     = get_assets sample_parseInt sample_like (listing (Some ''20'') None) db_three"
    using list_query_defaults [where parseInt = sample_parseInt and like = sample_like
            and d = db_three, OF s [of "Some ''20''" None "Some ''0''" None], THEN conjunct1]
    by (simp add: k v)
  have c2: "get_audit_logs sample_parseInt (listing (Some ''abc'') None) db_generator
     = get_audit_logs sample_parseInt (listing (Some ''50'') None) db_generator"
    using list_query_defaults [where parseInt = sample_parseInt and d = db_generator,
            OF s [of "Some ''50''" None "Some ''abc''" None], THEN conjunct2, THEN conjunct1]
    by (simp add: k v)
  have c3: "get_assets sample_parseInt sample_like (listing (Some ''20'') (Some ''x'')) db_three
     = get_assets sample_parseInt sample_like (listing (Some ''20'') (Some ''0'')) db_three"
    using list_query_defaults [where parseInt = sample_parseInt and like = sample_like
            and d = db_three, OF s [of "Some ''20''" "Some ''0''" "Some ''20''" "Some ''x''"],
            THEN conjunct2, THEN conjunct2, THEN conjunct1]
    by (simp add: k v)
  have c4: "\<exists>page. get_assets sample_parseInt sample_like (listing (Some ''0'') None) db_three
                = (Response 200 (AssetsPage page 3), db_three)
          \<and> length page = 3"
    using list_query_defaults [where parseInt = sample_parseInt and like = sample_like
            and d = db_three, OF s [of "Some ''0''" None "Some ''0''" None],
            THEN conjunct2, THEN conjunct2, THEN conjunct2, THEN conjunct1] d3
    by (auto simp: k v)
  have c5: "\<exists>page. get_audit_logs sample_parseInt (listing None None) db_generator
                = (Response 200 (AuditLogsPage page 1), db_generator)
          \<and> length page = 1"
    using list_query_defaults [where parseInt = sample_parseInt and d = db_generator,
            OF s [of None None None None],
            THEN conjunct2, THEN conjunct2, THEN conjunct2, THEN conjunct2] dg
    by (auto simp: k v)
  show ?thesis
    using c1 c2 c3 c4 c5 by blast
qed

end
